theory Spec2Isabelle
  imports Complex_Main "HOL-Library.AList"
begin

section \<open>Cross-regional duplicate invoice detection\<close>

text \<open>
  A shallow embedding of \<^verbatim>\<open>aptean_multi_regional_fraud_detector.py\<close> (the standalone
  detector, class \<^verbatim>\<open>ApteanRegionalFraudDetector\<close>) and of the fraud analysis of
  \<^verbatim>\<open>aptean_master_ai_system.py\<close> (class \<^verbatim>\<open>ApteanAIMasterSystem\<close>).

  Conventions of the embedding.
  \<^item> A Python \<^verbatim>\<open>str\<close> is a sequence of Unicode code points: \<open>str = nat list\<close>.
    \<open>asc\<close> turns an ASCII literal into such a sequence.
  \<^item> A Python \<^verbatim>\<open>float\<close> is a \<open>real\<close>: arithmetic is exact, there is no rounding error
    and no overflow.
  \<^item> A naive \<^verbatim>\<open>datetime\<close> is a number of seconds (the detector formats its clock with
    \<^verbatim>\<open>%Y-%m-%d %H:%M:%S\<close>, which drops the microseconds, and parses it back with the same
    format) or of microseconds (the master system keeps \<^verbatim>\<open>isoformat()\<close>); the clock
    \<^verbatim>\<open>datetime.now()\<close> is an argument of the function that reads it.
  \<^item> A \<^verbatim>\<open>dict\<close> whose keys are computed is an association list in insertion order,
    updated with \<open>AList.update\<close> (an existing key keeps its place and gets the new value, a
    new key goes to the end), as Python's \<^verbatim>\<open>d[k] = v\<close> does.
  \<^item> What the code takes from the Python interpreter and its standard library, and not from
    the repository, is the record \<open>runtime\<close>, an argument of every function that needs
    it; the functions on strings take its Unicode tables, the record \<open>unicode_db\<close>.
  \<^item> A string has no lone surrogate, so that \<^verbatim>\<open>encode()\<close> succeeds on it.
\<close>

subsection \<open>Strings\<close>

type_synonym str = "nat list"

definition asc :: "string \<Rightarrow> str" where
  "asc s = map of_char s"

record unicode_db =
  u_lower :: "str \<Rightarrow> str"
    \<comment> \<open>\<^verbatim>\<open>str.lower()\<close> on a string with a code point above 127\<close>
  u_decimal :: "nat \<Rightarrow> nat option"
    \<comment> \<open>the digit value of a code point above 127 of category Nd, if it is one\<close>
  u_alnum :: "nat \<Rightarrow> bool"
    \<comment> \<open>\<^verbatim>\<open>str.isalnum()\<close> on a code point above 127\<close>

record runtime =
  unicode :: unicode_db
    \<comment> \<open>the Unicode character database of the interpreter\<close>
  ratio :: "str \<Rightarrow> str \<Rightarrow> real"
    \<comment> \<open>\<^verbatim>\<open>difflib.SequenceMatcher(None, a, b).ratio()\<close>\<close>
  md5_hexdigest :: "str \<Rightarrow> str"
    \<comment> \<open>\<^verbatim>\<open>hashlib.md5(s.encode()).hexdigest()\<close>\<close>
  set_order :: "str list \<Rightarrow> str list"
    \<comment> \<open>the iteration order of a \<^verbatim>\<open>set\<close> of strings, which depends on the hash seed of
        the interpreter process: applied to the distinct elements in order of insertion, it
        gives them in the order \<^verbatim>\<open>list(set(...))\<close> does\<close>
  strftime_compact :: "int \<Rightarrow> str"
    \<comment> \<open>\<^verbatim>\<open>strftime('%Y%m%d-%H%M%S')\<close> of a time in seconds\<close>
  fmt_money :: "real \<Rightarrow> str"
    \<comment> \<open>the format \<^verbatim>\<open>{x:,.2f}\<close>\<close>
  fmt_percent :: "real \<Rightarrow> str"
    \<comment> \<open>the format \<^verbatim>\<open>{x:.1%}\<close>\<close>
  fmt_int :: "nat \<Rightarrow> str"
    \<comment> \<open>\<^verbatim>\<open>str(n)\<close> of a length\<close>

definition ascii_lower :: "nat \<Rightarrow> nat" where
  "ascii_lower c = (if 65 \<le> c \<and> c \<le> 90 then c + 32 else c)"

definition py_lower :: "unicode_db \<Rightarrow> str \<Rightarrow> str" where
  \<comment> \<open>\<^verbatim>\<open>s.lower()\<close>\<close>
  "py_lower u s = (if list_all (\<lambda>c. c < 128) s then map ascii_lower s else u_lower u s)"

fun is_prefix :: "str \<Rightarrow> str \<Rightarrow> bool" where
  "is_prefix [] ys = True"
| "is_prefix (x # xs) [] = False"
| "is_prefix (x # xs) (y # ys) = (x = y \<and> is_prefix xs ys)"

fun py_in :: "str \<Rightarrow> str \<Rightarrow> bool" where
  \<comment> \<open>\<^verbatim>\<open>a in b\<close> on strings: \<open>a\<close> is a substring of \<open>b\<close>\<close>
  "py_in xs [] = (xs = [])"
| "py_in xs (y # ys) = (is_prefix xs (y # ys) \<or> py_in xs ys)"

subsection \<open>Regular expressions\<close>

text \<open>
  The fragment of Python's \<^verbatim>\<open>re\<close> that the two modules use, with its backtracking
  semantics: a pattern is a sequence of items, tried in order at a start position; a greedy
  repetition takes as many characters as it can and gives them back one by one, a lazy one
  takes as few as it can; alternatives are tried from left to right. Every repetition of the
  source is over a single character class, and every pattern has at most one capturing group
  (\<open>Open\<close> ... \<open>Close\<close>). No pattern of the source matches the empty string, and the
  scanning functions below treat a match of length 0 as no match.
\<close>

definition is_space :: "nat \<Rightarrow> bool" where
  \<comment> \<open>\<^verbatim>\<open>\s\<close> and \<^verbatim>\<open>str.isspace()\<close>\<close>
  "is_space c =
     (c \<in> set [9, 10, 11, 12, 13, 28, 29, 30, 31, 32, 0x85, 0xA0, 0x1680, 0x2028, 0x2029,
                0x202F, 0x205F, 0x3000]
      \<or> (0x2000 \<le> c \<and> c \<le> 0x200A))"

definition digit_value :: "unicode_db \<Rightarrow> nat \<Rightarrow> nat option" where
  "digit_value u c =
     (if c < 128 then (if 48 \<le> c \<and> c \<le> 57 then Some (c - 48) else None) else u_decimal u c)"

definition is_digit :: "unicode_db \<Rightarrow> nat \<Rightarrow> bool" where
  \<comment> \<open>\<^verbatim>\<open>\d\<close>\<close>
  "is_digit u c = (digit_value u c \<noteq> None)"

definition is_word :: "unicode_db \<Rightarrow> nat \<Rightarrow> bool" where
  \<comment> \<open>\<^verbatim>\<open>\w\<close>\<close>
  "is_word u c =
     (if c < 128
      then (48 \<le> c \<and> c \<le> 57) \<or> (65 \<le> c \<and> c \<le> 90) \<or> (97 \<le> c \<and> c \<le> 122) \<or> c = 95
      else u_alnum u c)"

definition ascii_upper :: "nat \<Rightarrow> nat" where
  "ascii_upper c = (if 97 \<le> c \<and> c \<le> 122 then c - 32 else c)"

definition ci_eq :: "nat \<Rightarrow> nat \<Rightarrow> bool" where
  \<comment> \<open>an ASCII pattern character \<open>p\<close> against \<open>c\<close> under \<^verbatim>\<open>re.IGNORECASE\<close>: besides the
      two cases of a letter, i matches U+0130 and U+0131, s matches U+017F, k matches U+212A\<close>
  "ci_eq p c =
     (ascii_lower c = ascii_lower p
      \<or> (ascii_lower p = 105 \<and> (c = 0x130 \<or> c = 0x131))
      \<or> (ascii_lower p = 115 \<and> c = 0x17F)
      \<or> (ascii_lower p = 107 \<and> c = 0x212A))"

definition in_range_ci :: "nat \<Rightarrow> nat \<Rightarrow> nat \<Rightarrow> bool" where
  \<comment> \<open>a range \<open>lo-hi\<close> of ASCII characters under \<^verbatim>\<open>re.IGNORECASE\<close>\<close>
  "in_range_ci lo hi c =
     ((lo \<le> c \<and> c \<le> hi)
      \<or> (lo \<le> ascii_lower c \<and> ascii_lower c \<le> hi)
      \<or> (lo \<le> ascii_upper c \<and> ascii_upper c \<le> hi)
      \<or> ((c = 0x130 \<or> c = 0x131) \<and> ((lo \<le> 105 \<and> 105 \<le> hi) \<or> (lo \<le> 73 \<and> 73 \<le> hi)))
      \<or> (c = 0x17F \<and> ((lo \<le> 115 \<and> 115 \<le> hi) \<or> (lo \<le> 83 \<and> 83 \<le> hi)))
      \<or> (c = 0x212A \<and> ((lo \<le> 107 \<and> 107 \<le> hi) \<or> (lo \<le> 75 \<and> 75 \<le> hi))))"

datatype cset = Digit | Space | Dot | Ch nat | Range nat nat

fun cset_match :: "unicode_db \<Rightarrow> bool \<Rightarrow> cset \<Rightarrow> nat \<Rightarrow> bool" where
  "cset_match u ic Digit c = is_digit u c"
| "cset_match u ic Space c = is_space c"
| "cset_match u ic Dot c = (c \<noteq> 10)"
| "cset_match u ic (Ch p) c = (if ic then ci_eq p c else c = p)"
| "cset_match u ic (Range lo hi) c = (if ic then in_range_ci lo hi c else lo \<le> c \<and> c \<le> hi)"

definition cls_match :: "unicode_db \<Rightarrow> bool \<Rightarrow> cset list \<Rightarrow> nat \<Rightarrow> bool" where
  \<comment> \<open>a character class \<^verbatim>\<open>[...]\<close> is the union of its members\<close>
  "cls_match u ic cs c = list_ex (\<lambda>x. cset_match u ic x c) cs"

datatype atom = ALit str | AEos

datatype item =
    Lit str
  | Eos
  | WordB
  | Open
  | Close
  | Alt "atom list"
  | Rep "cset list" nat "nat option" bool

definition One :: "cset list \<Rightarrow> item" where
  "One cs = Rep cs 1 (Some 1) True"

definition Opt :: "cset list \<Rightarrow> item" where
  "Opt cs = Rep cs 0 (Some 1) True"

definition Star :: "cset list \<Rightarrow> item" where
  "Star cs = Rep cs 0 None True"

definition Plus :: "cset list \<Rightarrow> item" where
  "Plus cs = Rep cs 1 None True"

definition LazyPlus :: "cset list \<Rightarrow> item" where
  "LazyPlus cs = Rep cs 1 None False"

fun lit_match :: "bool \<Rightarrow> str \<Rightarrow> nat option \<Rightarrow> str \<Rightarrow> (nat option \<times> str) option" where
  "lit_match ic [] prev s = Some (prev, s)"
| "lit_match ic (p # ps) prev [] = None"
| "lit_match ic (p # ps) prev (c # s) =
     (if (if ic then ci_eq p c else c = p) then lit_match ic ps (Some c) s else None)"

definition at_eos :: "str \<Rightarrow> bool" where
  \<comment> \<open>\<^verbatim>\<open>$\<close> without \<^verbatim>\<open>re.MULTILINE\<close>: the end of the string, or just before a newline that
      ends it\<close>
  "at_eos s = (s = [] \<or> s = [10])"

fun atom_match :: "bool \<Rightarrow> atom \<Rightarrow> nat option \<Rightarrow> str \<Rightarrow> (nat option \<times> str) option" where
  "atom_match ic (ALit l) prev s = lit_match ic l prev s"
| "atom_match ic AEos prev s = (if at_eos s then Some (prev, s) else None)"

definition at_boundary :: "unicode_db \<Rightarrow> nat option \<Rightarrow> str \<Rightarrow> bool" where
  \<comment> \<open>\<^verbatim>\<open>\b\<close>: exactly one of the characters before and after the position is a word
      character\<close>
  "at_boundary u prev s =
     ((case prev of None \<Rightarrow> False | Some c \<Rightarrow> is_word u c)
      \<noteq> (case s of [] \<Rightarrow> False | c # _ \<Rightarrow> is_word u c))"

definition below :: "nat \<Rightarrow> nat option \<Rightarrow> bool" where
  "below n hi = (case hi of None \<Rightarrow> True | Some h \<Rightarrow> n < h)"

text \<open>
  \<open>rx_match u ic items prev s mark cap\<close> matches the items at the start of \<open>s\<close>, where
  \<open>prev\<close> is the character before \<open>s\<close>, \<open>mark\<close> the input at the open group and \<open>cap\<close> the
  text of the closed group; it gives the length of the input left after the match, and the
  group.
\<close>

function rx_match ::
    "unicode_db \<Rightarrow> bool \<Rightarrow> item list \<Rightarrow> nat option \<Rightarrow> str \<Rightarrow> str option \<Rightarrow> str option
     \<Rightarrow> (nat \<times> str option) option"
  and rx_alt ::
    "unicode_db \<Rightarrow> bool \<Rightarrow> atom list \<Rightarrow> item list \<Rightarrow> nat option \<Rightarrow> str \<Rightarrow> str option
     \<Rightarrow> str option \<Rightarrow> (nat \<times> str option) option"
  and rx_rep ::
    "unicode_db \<Rightarrow> bool \<Rightarrow> cset list \<Rightarrow> nat \<Rightarrow> nat option \<Rightarrow> bool \<Rightarrow> nat \<Rightarrow> item list
     \<Rightarrow> nat option \<Rightarrow> str \<Rightarrow> str option \<Rightarrow> str option \<Rightarrow> (nat \<times> str option) option"
where
  "rx_match u ic [] prev s mark cap = Some (length s, cap)"
| "rx_match u ic (Lit l # its) prev s mark cap =
     (case lit_match ic l prev s of
        None \<Rightarrow> None
      | Some (prev', s') \<Rightarrow> rx_match u ic its prev' s' mark cap)"
| "rx_match u ic (Eos # its) prev s mark cap =
     (if at_eos s then rx_match u ic its prev s mark cap else None)"
| "rx_match u ic (WordB # its) prev s mark cap =
     (if at_boundary u prev s then rx_match u ic its prev s mark cap else None)"
| "rx_match u ic (Open # its) prev s mark cap = rx_match u ic its prev s (Some s) cap"
| "rx_match u ic (Close # its) prev s mark cap =
     rx_match u ic its prev s mark
       (case mark of None \<Rightarrow> cap | Some ms \<Rightarrow> Some (take (length ms - length s) ms))"
| "rx_match u ic (Alt as # its) prev s mark cap = rx_alt u ic as its prev s mark cap"
| "rx_match u ic (Rep cs lo hi g # its) prev s mark cap =
     rx_rep u ic cs lo hi g 0 its prev s mark cap"
| "rx_alt u ic [] its prev s mark cap = None"
| "rx_alt u ic (a # as) its prev s mark cap =
     (case atom_match ic a prev s of
        None \<Rightarrow> rx_alt u ic as its prev s mark cap
      | Some (prev', s') \<Rightarrow>
          (case rx_match u ic its prev' s' mark cap of
             Some r \<Rightarrow> Some r
           | None \<Rightarrow> rx_alt u ic as its prev s mark cap))"
| "rx_rep u ic cs lo hi g n its prev [] mark cap =
     (if lo \<le> n then rx_match u ic its prev [] mark cap else None)"
| "rx_rep u ic cs lo hi g n its prev (c # s) mark cap =
     (if g
      then (if cls_match u ic cs c \<and> below n hi
            then (case rx_rep u ic cs lo hi g (Suc n) its (Some c) s mark cap of
                    Some r \<Rightarrow> Some r
                  | None \<Rightarrow>
                      if lo \<le> n then rx_match u ic its prev (c # s) mark cap else None)
            else if lo \<le> n then rx_match u ic its prev (c # s) mark cap else None)
      else (case (if lo \<le> n then rx_match u ic its prev (c # s) mark cap else None) of
              Some r \<Rightarrow> Some r
            | None \<Rightarrow>
                if cls_match u ic cs c \<and> below n hi
                then rx_rep u ic cs lo hi g (Suc n) its (Some c) s mark cap
                else None))"
  by pat_completeness auto
termination
  by (relation "measures
        [\<lambda>x. case x of
               Inl (u, ic, its, prev, s, mark, cap) \<Rightarrow> 2 * length its
             | Inr (Inl (u, ic, as, its, prev, s, mark, cap)) \<Rightarrow> 2 * length its + 1
             | Inr (Inr (u, ic, cs, lo, hi, g, n, its, prev, s, mark, cap)) \<Rightarrow> 2 * length its + 1,
         \<lambda>x. case x of
               Inl (u, ic, its, prev, s, mark, cap) \<Rightarrow> 0
             | Inr (Inl (u, ic, as, its, prev, s, mark, cap)) \<Rightarrow> length as
             | Inr (Inr (u, ic, cs, lo, hi, g, n, its, prev, s, mark, cap)) \<Rightarrow> length s]")
     auto

definition re_match ::
    "unicode_db \<Rightarrow> bool \<Rightarrow> item list \<Rightarrow> nat option \<Rightarrow> str \<Rightarrow> (nat \<times> str option) option" where
  \<comment> \<open>the length and the group of the match of the pattern that starts at \<open>s\<close>\<close>
  "re_match u ic p prev s =
     (case rx_match u ic p prev s None None of
        None \<Rightarrow> None
      | Some (r, cap) \<Rightarrow> Some (length s - r, cap))"

fun sub_scan :: "unicode_db \<Rightarrow> bool \<Rightarrow> item list \<Rightarrow> str \<Rightarrow> nat option \<Rightarrow> str \<Rightarrow> nat \<Rightarrow> str" where
  "sub_scan u ic p repl prev [] skip = []"
| "sub_scan u ic p repl prev (c # s) skip =
     (if 0 < skip then sub_scan u ic p repl (Some c) s (skip - 1)
      else (case re_match u ic p prev (c # s) of
              Some (Suc n, cap) \<Rightarrow> repl @ sub_scan u ic p repl (Some c) s n
            | _ \<Rightarrow> c # sub_scan u ic p repl (Some c) s 0))"

definition re_sub :: "unicode_db \<Rightarrow> bool \<Rightarrow> item list \<Rightarrow> str \<Rightarrow> str \<Rightarrow> str" where
  \<comment> \<open>\<^verbatim>\<open>re.sub(p, repl, s)\<close>: every match, from left to right and without overlap, is
      replaced; \<open>skip\<close> counts the characters of the current match still to drop\<close>
  "re_sub u ic p repl s = sub_scan u ic p repl None s 0"

fun findall_scan :: "unicode_db \<Rightarrow> bool \<Rightarrow> item list \<Rightarrow> nat option \<Rightarrow> str \<Rightarrow> nat \<Rightarrow> str list" where
  "findall_scan u ic p prev [] skip = []"
| "findall_scan u ic p prev (c # s) skip =
     (if 0 < skip then findall_scan u ic p (Some c) s (skip - 1)
      else (case re_match u ic p prev (c # s) of
              Some (Suc n, cap) \<Rightarrow>
                (case cap of None \<Rightarrow> [] | Some g \<Rightarrow> g) # findall_scan u ic p (Some c) s n
            | _ \<Rightarrow> findall_scan u ic p (Some c) s 0))"

definition re_findall :: "unicode_db \<Rightarrow> bool \<Rightarrow> item list \<Rightarrow> str \<Rightarrow> str list" where
  \<comment> \<open>\<^verbatim>\<open>re.findall(p, s)\<close> for a pattern with one group: the group of every match\<close>
  "re_findall u ic p s = findall_scan u ic p None s 0"

fun search_scan :: "unicode_db \<Rightarrow> bool \<Rightarrow> item list \<Rightarrow> nat option \<Rightarrow> str \<Rightarrow> str option" where
  "search_scan u ic p prev [] = None"
| "search_scan u ic p prev (c # s) =
     (case re_match u ic p prev (c # s) of
        Some (Suc n, cap) \<Rightarrow> Some (case cap of None \<Rightarrow> [] | Some g \<Rightarrow> g)
      | _ \<Rightarrow> search_scan u ic p (Some c) s)"

definition re_search :: "unicode_db \<Rightarrow> bool \<Rightarrow> item list \<Rightarrow> str \<Rightarrow> str option" where
  \<comment> \<open>\<^verbatim>\<open>re.search(p, s)\<close> followed by \<^verbatim>\<open>.group(1)\<close>: the group of the leftmost match\<close>
  "re_search u ic p s = search_scan u ic p None s"

definition py_strip :: "str \<Rightarrow> str" where
  \<comment> \<open>\<^verbatim>\<open>s.strip()\<close>\<close>
  "py_strip s = rev (dropWhile is_space (rev (dropWhile is_space s)))"

subsection \<open>Rounding\<close>

definition round_half_even :: "real \<Rightarrow> int" where
  "round_half_even y =
     (let f = \<lfloor>y\<rfloor>; d = y - of_int f
      in if d < 1 / 2 then f else if 1 / 2 < d then f + 1 else if even f then f else f + 1)"

definition py_round2 :: "real \<Rightarrow> real" where
  \<comment> \<open>\<^verbatim>\<open>round(x, 2)\<close>\<close>
  "py_round2 x = of_int (round_half_even (x * 100)) / 100"

subsection \<open>Data model\<close>

record invoice_fingerprint =
  content_hash :: str
  vendor_name :: str
  line_items :: "str list"
  amounts :: "real list"
  po_reference :: str
  delivery_address :: str
  normalized_content :: str
  extracted_keywords :: "str list"

record regional_invoice =
  invoice_id :: str
  region :: str
  currency :: str
  total_amount :: real
  submission_timestamp :: int
  fingerprint :: invoice_fingerprint
  processing_status :: str

record fraud_patterns =
  time_window_hours :: int
  similarity_threshold :: real
  vendor_variance_threshold :: real
  po_reference_weight :: real
  delivery_address_weight :: real
  line_items_weight :: real

record detector =
  cross_regional_database :: "regional_invoice list"
  currency_rates_to_usd :: "(str \<times> real) list"
  patterns :: fraud_patterns

definition default_rates :: "(str \<times> real) list" where
  "default_rates =
     [(asc ''USD'', 1), (asc ''EUR'', 118 / 100), (asc ''GBP'', 128 / 100),
      (asc ''INR'', 12 / 1000), (asc ''CAD'', 74 / 100), (asc ''JPY'', 67 / 10000)]"

definition default_patterns :: fraud_patterns where
  "default_patterns =
     \<lparr>time_window_hours = 72, similarity_threshold = 85 / 100,
      vendor_variance_threshold = 1 / 10, po_reference_weight = 3 / 10,
      delivery_address_weight = 25 / 100, line_items_weight = 45 / 100\<rparr>"

definition init_detector :: detector where
  \<comment> \<open>\<^verbatim>\<open>ApteanRegionalFraudDetector.__init__\<close>\<close>
  "init_detector =
     \<lparr>cross_regional_database = [], currency_rates_to_usd = default_rates,
      patterns = default_patterns\<rparr>"

definition rate_of :: "(str \<times> real) list \<Rightarrow> str \<Rightarrow> real" where
  \<comment> \<open>\<^verbatim>\<open>currency_rates_to_usd.get(currency, 1.0)\<close>\<close>
  "rate_of rates c = (case map_of rates c of None \<Rightarrow> 1 | Some r \<Rightarrow> r)"

subsection \<open>Currency reconciliation\<close>

record currency_result =
  amount1_usd :: real
  amount2_usd :: real
  variance_percentage :: real
  suspicious :: bool
  currency_pair :: str

definition to_usd :: "detector \<Rightarrow> regional_invoice \<Rightarrow> real" where
  "to_usd d invoice = total_amount invoice * rate_of (currency_rates_to_usd d) (currency invoice)"

definition currency_variance :: "detector \<Rightarrow> regional_invoice \<Rightarrow> regional_invoice \<Rightarrow> real" where
  \<comment> \<open>the local \<^verbatim>\<open>variance\<close> of \<^verbatim>\<open>_analyze_currency_relationship\<close>\<close>
  "currency_variance d invoice1 invoice2 =
     (let a1 = to_usd d invoice1; a2 = to_usd d invoice2
      in if a1 > 0 then \<bar>a1 - a2\<bar> / a1 else 1)"

definition analyze_currency_relationship ::
  "detector \<Rightarrow> regional_invoice \<Rightarrow> regional_invoice \<Rightarrow> currency_result" where
  "analyze_currency_relationship d invoice1 invoice2 =
     (let variance = currency_variance d invoice1 invoice2
      in \<lparr>amount1_usd = py_round2 (to_usd d invoice1),
          amount2_usd = py_round2 (to_usd d invoice2),
          variance_percentage = py_round2 (variance * 100),
          suspicious = (variance < vendor_variance_threshold (patterns d)),
          currency_pair = currency invoice1 @ asc ''-'' @ currency invoice2\<rparr>)"

subsection \<open>Content normalizer\<close>

definition currency_symbols :: "cset list" where
  \<comment> \<open>the class \<^verbatim>\<open>[\$...]\<close> of the detector, character by character as the file has it\<close>
  "currency_symbols =
     [Ch 0x24, Ch 0x201A, Ch 0xC7, Ch 0xA8, Ch 0xAC, Ch 0xA3, Ch 0x201A, Ch 0xC7, Ch 0x3C0,
      Ch 0xAC, Ch 0x2022]"

definition alnum_hyphen :: "cset list" where
  \<comment> \<open>\<^verbatim>\<open>[A-Z0-9-]\<close>\<close>
  "alnum_hyphen = [Range 65 90, Range 48 57, Ch 45]"

definition currency_symbol_pattern :: "item list" where
  "currency_symbol_pattern = [One currency_symbols]"

definition currency_code_pattern :: "item list" where
  \<comment> \<open>\<^verbatim>\<open>\b(USD|EUR|GBP|INR|JPY|CAD)\b\<close>\<close>
  "currency_code_pattern =
     [WordB, Open,
      Alt [ALit (asc ''USD''), ALit (asc ''EUR''), ALit (asc ''GBP''), ALit (asc ''INR''),
           ALit (asc ''JPY''), ALit (asc ''CAD'')],
      Close, WordB]"

definition invoice_number_pattern :: "item list" where
  \<comment> \<open>\<^verbatim>\<open>Invoice\s*#?:?\s*[A-Z0-9-]+\<close>\<close>
  "invoice_number_pattern =
     [Lit (asc ''Invoice''), Star [Space], Opt [Ch 35], Opt [Ch 58], Star [Space],
      Plus alnum_hyphen]"

definition date_pattern :: "item list" where
  \<comment> \<open>\<^verbatim>\<open>\d{1,2}[/-]\d{1,2}[/-]\d{2,4}\<close>\<close>
  "date_pattern =
     [Rep [Digit] 1 (Some 2) True, One [Ch 47, Ch 45], Rep [Digit] 1 (Some 2) True,
      One [Ch 47, Ch 45], Rep [Digit] 2 (Some 4) True]"

definition amount_pattern :: "item list" where
  \<comment> \<open>\<^verbatim>\<open>\d+[,.]?\d*\<close>\<close>
  "amount_pattern = [Plus [Digit], Opt [Ch 44, Ch 46], Star [Digit]]"

definition whitespace_pattern :: "item list" where
  \<comment> \<open>\<^verbatim>\<open>\s+\<close>\<close>
  "whitespace_pattern = [Plus [Space]]"

definition normalize_content_for_comparison :: "unicode_db \<Rightarrow> str \<Rightarrow> str" where
  "normalize_content_for_comparison u invoice_text =
     (let normalized = re_sub u False currency_symbol_pattern (asc ''CURRENCY'') invoice_text;
          normalized = re_sub u True currency_code_pattern (asc ''CURRENCY'') normalized;
          normalized = re_sub u True invoice_number_pattern (asc ''INVOICE_NUMBER'') normalized;
          normalized = re_sub u False date_pattern (asc ''DATE'') normalized;
          normalized = re_sub u False amount_pattern (asc ''AMOUNT'') normalized;
          normalized = re_sub u False whitespace_pattern (asc '' '') (py_strip normalized)
      in py_lower u normalized)"

definition create_content_fingerprint :: "unicode_db \<Rightarrow> str \<Rightarrow> str" where
  \<comment> \<open>\<^verbatim>\<open>ApteanAIMasterSystem._create_content_fingerprint\<close>\<close>
  "create_content_fingerprint u invoice_text =
     (let normalized = py_lower u invoice_text;
          normalized = re_sub u False [One [Ch 0x24, Ch 0x20AC, Ch 0xA3, Ch 0x20B9, Ch 0xA5]]
            (asc ''CURRENCY'') normalized;
          normalized = re_sub u False amount_pattern (asc ''AMOUNT'') normalized;
          normalized = re_sub u False
            [Lit (asc ''invoice''), Star [Space], Opt [Ch 35], Opt [Ch 58], Star [Space],
             Plus [Range 97 122, Range 48 57, Ch 45]]
            (asc ''INVOICE_ID'') normalized;
          normalized = re_sub u False date_pattern (asc ''DATE'') normalized
      in re_sub u False whitespace_pattern (asc '' '') (py_strip normalized))"

subsection \<open>Fingerprint extraction\<close>

definition label_line :: "string \<Rightarrow> item list" where
  \<comment> \<open>the pattern \<^verbatim>\<open>Label:\s*(.+?)\n\<close>\<close>
  "label_line l = [Lit (asc l), Star [Space], Open, LazyPlus [Dot], Close, Lit [10]]"

definition label_line_eos :: "string \<Rightarrow> item list" where
  \<comment> \<open>the pattern \<^verbatim>\<open>Label:\s*(.+?)(?:\n|$)\<close>\<close>
  "label_line_eos l =
     [Lit (asc l), Star [Space], Open, LazyPlus [Dot], Close, Alt [ALit [10], AEos]]"

definition label_ref :: "string \<Rightarrow> item list" where
  \<comment> \<open>the pattern \<^verbatim>\<open>Label[\s#:-]*([A-Z0-9-]+)\<close>\<close>
  "label_ref l =
     [Lit (asc l), Star [Space, Ch 35, Ch 58, Ch 45], Open, Plus alnum_hyphen, Close]"

definition vendor_patterns :: "item list list" where
  "vendor_patterns =
     [label_line ''From:'', label_line ''Vendor:'', label_line ''Supplier:'',
      label_line ''Company:'']"

definition line_patterns :: "item list list" where
  "line_patterns =
     [label_line ''Description:'', label_line ''Product:'', label_line ''Service:'',
      label_line ''Item:'']"

definition amount_patterns :: "item list list" where
  "amount_patterns =
     [[One currency_symbols, Star [Space],
       Open, Plus [Digit, Ch 44], Opt [Ch 46], Star [Digit], Close],
      [Open, Plus [Digit, Ch 44], Opt [Ch 46], Star [Digit], Close, Star [Space],
       Alt [ALit (asc ''USD''), ALit (asc ''EUR''), ALit (asc ''GBP''), ALit (asc ''INR''),
            ALit (asc ''JPY'')]]]"

definition po_patterns :: "item list list" where
  "po_patterns = [label_ref ''PO'', label_ref ''Purchase Order'', label_ref ''Reference'']"

definition address_patterns :: "item list list" where
  "address_patterns =
     [label_line_eos ''Delivery:'', label_line_eos ''Ship to:'', label_line_eos ''Address:'']"

fun first_search :: "unicode_db \<Rightarrow> item list list \<Rightarrow> str \<Rightarrow> str" where
  \<comment> \<open>the loop \<^verbatim>\<open>for pattern in patterns: match = re.search(...); if match: ...; break\<close>
      over an initial value \<^verbatim>\<open>""\<close>\<close>
  "first_search u [] invoice_text = []"
| "first_search u (pattern # ps) invoice_text =
     (case re_search u True pattern invoice_text of
        Some g \<Rightarrow> py_strip g
      | None \<Rightarrow> first_search u ps invoice_text)"

fun digits_value :: "unicode_db \<Rightarrow> str \<Rightarrow> nat \<Rightarrow> nat option" where
  "digits_value u [] acc = Some acc"
| "digits_value u (c # cs) acc =
     (case digit_value u c of
        None \<Rightarrow> None
      | Some v \<Rightarrow> digits_value u cs (acc * 10 + v))"

definition py_float :: "unicode_db \<Rightarrow> str \<Rightarrow> real option" where
  \<comment> \<open>\<^verbatim>\<open>float(s)\<close> on the strings the amount patterns capture, commas removed: digits, with at
      most one point; \<open>None\<close> is the \<^verbatim>\<open>ValueError\<close> that the source catches\<close>
  "py_float u s =
     (let ip = takeWhile (\<lambda>c. c \<noteq> 46) s;
          fp = (case dropWhile (\<lambda>c. c \<noteq> 46) s of [] \<Rightarrow> [] | _ # f \<Rightarrow> f)
      in if ip = [] \<and> fp = [] then None
         else (case (digits_value u ip 0, digits_value u fp 0) of
                 (Some i, Some f) \<Rightarrow> Some (real i + real f / 10 ^ length fp)
               | _ \<Rightarrow> None))"

definition extract_amounts :: "unicode_db \<Rightarrow> str \<Rightarrow> real list" where
  "extract_amounts u invoice_text =
     concat (map (\<lambda>pattern.
        List.map_filter (\<lambda>m. py_float u (filter (\<lambda>c. c \<noteq> 44) m))
          (re_findall u False pattern invoice_text)) amount_patterns)"

definition py_list_set :: "runtime \<Rightarrow> str list \<Rightarrow> str list" where
  \<comment> \<open>\<^verbatim>\<open>list(set(xs))\<close>: the distinct elements, in the iteration order of the set\<close>
  "py_list_set rt xs = set_order rt (rev (remdups (rev xs)))"

definition extract_keywords :: "runtime \<Rightarrow> str \<Rightarrow> str list" where
  "extract_keywords rt invoice_text =
     (let product_keywords = re_findall (unicode rt) True
            [WordB, Open,
             Alt [ALit (asc ''software''), ALit (asc ''license''), ALit (asc ''consultation''),
                  ALit (asc ''equipment''), ALit (asc ''service''), ALit (asc ''support''),
                  ALit (asc ''maintenance''), ALit (asc ''installation'')],
             Close, WordB] invoice_text;
          keywords = map (py_lower (unicode rt)) product_keywords;
          tech_keywords = re_findall (unicode rt) True
            [WordB, Open,
             Alt [ALit (asc ''Microsoft''), ALit (asc ''Office''), ALit (asc ''SAP''),
                  ALit (asc ''Oracle''), ALit (asc ''AWS''), ALit (asc ''Google''),
                  ALit (asc ''Enterprise''), ALit (asc ''Professional''),
                  ALit (asc ''Premium'')],
             Close, WordB] invoice_text;
          keywords = keywords @ map (py_lower (unicode rt)) tech_keywords
      in py_list_set rt keywords)"

definition generate_content_fingerprint :: "runtime \<Rightarrow> str \<Rightarrow> invoice_fingerprint" where
  "generate_content_fingerprint rt invoice_text =
     (let vendor_name = first_search (unicode rt) vendor_patterns invoice_text;
          line_items = concat (map (\<lambda>pattern.
             map py_strip (re_findall (unicode rt) True pattern invoice_text)) line_patterns);
          amounts = extract_amounts (unicode rt) invoice_text;
          po_reference = first_search (unicode rt) po_patterns invoice_text;
          delivery_address = first_search (unicode rt) address_patterns invoice_text;
          normalized_content = normalize_content_for_comparison (unicode rt) invoice_text;
          keywords = extract_keywords rt invoice_text;
          content_hash = md5_hexdigest rt normalized_content
      in \<lparr>content_hash = content_hash, vendor_name = vendor_name, line_items = line_items,
          amounts = amounts, po_reference = po_reference,
          delivery_address = delivery_address, normalized_content = normalized_content,
          extracted_keywords = keywords\<rparr>)"

record invoice_data =
  data_invoice_id :: "str option"
  data_region :: "str option"
  data_currency :: "str option"
  data_total_amount :: "real option"
  data_invoice_text :: "str option"

definition get_or :: "'a option \<Rightarrow> 'a \<Rightarrow> 'a" where
  \<comment> \<open>\<^verbatim>\<open>invoice_data.get(key, default)\<close>, the value of the key given as an option\<close>
  "get_or v dflt = (case v of None \<Rightarrow> dflt | Some x \<Rightarrow> x)"

definition create_regional_invoice :: "runtime \<Rightarrow> invoice_data \<Rightarrow> int \<Rightarrow> regional_invoice" where
  "create_regional_invoice rt data now =
     (let invoice_text = get_or (data_invoice_text data) [];
          fingerprint = generate_content_fingerprint rt invoice_text
      in \<lparr>invoice_id = get_or (data_invoice_id data) [],
          region = get_or (data_region data) [],
          currency = get_or (data_currency data) [],
          total_amount = get_or (data_total_amount data) 0,
          submission_timestamp = now,
          fingerprint = fingerprint,
          processing_status = asc ''pending''\<rparr>)"

subsection \<open>Candidate search and pre-filter\<close>

definition quick_similarity_check ::
    "runtime \<Rightarrow> regional_invoice \<Rightarrow> regional_invoice \<Rightarrow> bool" where
  "quick_similarity_check rt invoice1 invoice2 =
     (let fp1 = fingerprint invoice1; fp2 = fingerprint invoice2
      in if po_reference fp1 \<noteq> [] \<and> po_reference fp2 \<noteq> []
            \<and> py_lower (unicode rt) (po_reference fp1) = py_lower (unicode rt) (po_reference fp2)
         then True
         else if vendor_name fp1 \<noteq> [] \<and> vendor_name fp2 \<noteq> []
            \<and> ratio rt (py_lower (unicode rt) (vendor_name fp1)) (py_lower (unicode rt) (vendor_name fp2)) > 8 / 10
         then True
         else if delivery_address fp1 \<noteq> [] \<and> delivery_address fp2 \<noteq> []
            \<and> py_in (py_lower (unicode rt) (delivery_address fp1)) (py_lower (unicode rt) (delivery_address fp2))
         then True
         else False)"

fun search_loop ::
    "runtime \<Rightarrow> detector \<Rightarrow> regional_invoice \<Rightarrow> regional_invoice list \<Rightarrow> regional_invoice list" where
  "search_loop rt d current_invoice [] = []"
| "search_loop rt d current_invoice (existing_invoice # rest) =
     (if \<bar>submission_timestamp current_invoice - submission_timestamp existing_invoice\<bar>
           > time_window_hours (patterns d) * 3600
      then search_loop rt d current_invoice rest
      else if region existing_invoice = region current_invoice
      then search_loop rt d current_invoice rest
      else if quick_similarity_check rt current_invoice existing_invoice
      then existing_invoice # search_loop rt d current_invoice rest
      else search_loop rt d current_invoice rest)"

definition search_cross_regional_duplicates ::
    "runtime \<Rightarrow> detector \<Rightarrow> regional_invoice \<Rightarrow> regional_invoice list" where
  "search_cross_regional_duplicates rt d current_invoice =
     search_loop rt d current_invoice (cross_regional_database d)"

fun quick_check_calls ::
    "detector \<Rightarrow> regional_invoice \<Rightarrow> regional_invoice list \<Rightarrow> regional_invoice list" where
  \<comment> \<open>the stored invoices for which the loop of \<^verbatim>\<open>_search_cross_regional_duplicates\<close> reaches
      the call of \<^verbatim>\<open>_quick_similarity_check\<close>, in order\<close>
  "quick_check_calls d current_invoice [] = []"
| "quick_check_calls d current_invoice (existing_invoice # rest) =
     (if \<bar>submission_timestamp current_invoice - submission_timestamp existing_invoice\<bar>
           > time_window_hours (patterns d) * 3600
      then quick_check_calls d current_invoice rest
      else if region existing_invoice = region current_invoice
      then quick_check_calls d current_invoice rest
      else existing_invoice # quick_check_calls d current_invoice rest)"

subsection \<open>Detailed comparison\<close>

record temporal_result =
  time_difference_hours :: real
  submission_order :: str
  suspicious_timing :: bool
  regions :: str

definition hours_diff :: "regional_invoice \<Rightarrow> regional_invoice \<Rightarrow> real" where
  \<comment> \<open>the local \<^verbatim>\<open>hours_diff\<close> of \<^verbatim>\<open>_analyze_submission_timing\<close>\<close>
  "hours_diff invoice1 invoice2 =
     real_of_int \<bar>submission_timestamp invoice1 - submission_timestamp invoice2\<bar> / 3600"

definition analyze_submission_timing ::
    "detector \<Rightarrow> regional_invoice \<Rightarrow> regional_invoice \<Rightarrow> temporal_result" where
  "analyze_submission_timing d invoice1 invoice2 =
     (let h = hours_diff invoice1 invoice2
      in \<lparr>time_difference_hours = py_round2 h,
          submission_order = (if h < 24 then asc ''sequential'' else asc ''spread''),
          suspicious_timing = (h < real_of_int (time_window_hours (patterns d))),
          regions = region invoice1 @ asc '' '' @ [0x201A, 0xDC, 0xED] @ asc '' ''
                    @ region invoice2\<rparr>)"

definition compare_line_items :: "runtime \<Rightarrow> str list \<Rightarrow> str list \<Rightarrow> real" where
  "compare_line_items rt items1 items2 =
     (if items1 = [] \<or> items2 = [] then 0
      else (let (total_similarity, comparisons) =
                  fold (\<lambda>item1. fold (\<lambda>item2 (total, n).
                          (total + ratio rt (py_lower (unicode rt) item1) (py_lower (unicode rt) item2), n + 1))
                        items2)
                    items1 (0, 0 :: nat)
            in if comparisons > 0 then total_similarity / real comparisons else 0))"

record element_scores =
  content_similarity :: real
  po_reference_match :: real
  address_similarity :: real
  line_items_similarity :: real

record comparison =
  overall_similarity :: real
  cmp_matching_elements :: element_scores
  cmp_currency_analysis :: currency_result
  cmp_temporal_analysis :: temporal_result

definition compare_invoices_detailed ::
    "runtime \<Rightarrow> detector \<Rightarrow> regional_invoice \<Rightarrow> regional_invoice \<Rightarrow> comparison" where
  "compare_invoices_detailed rt d invoice1 invoice2 =
     (let fp1 = fingerprint invoice1; fp2 = fingerprint invoice2;
          content_similarity = ratio rt (normalized_content fp1) (normalized_content fp2);
          po_match = (if po_reference fp1 \<noteq> [] \<and> po_reference fp2 \<noteq> []
                         \<and> py_lower (unicode rt) (po_reference fp1) = py_lower (unicode rt) (po_reference fp2)
                      then 1 else 0);
          address_similarity =
            (if delivery_address fp1 \<noteq> [] \<and> delivery_address fp2 \<noteq> []
             then ratio rt (py_lower (unicode rt) (delivery_address fp1))
                    (py_lower (unicode rt) (delivery_address fp2))
             else 0);
          line_items_similarity = compare_line_items rt (line_items fp1) (line_items fp2);
          overall_similarity =
            content_similarity * (3 / 10)
            + po_match * po_reference_weight (patterns d)
            + address_similarity * delivery_address_weight (patterns d)
            + line_items_similarity * line_items_weight (patterns d)
      in \<lparr>overall_similarity = overall_similarity,
          cmp_matching_elements =
            \<lparr>content_similarity = content_similarity, po_reference_match = po_match,
             address_similarity = address_similarity,
             line_items_similarity = line_items_similarity\<rparr>,
          cmp_currency_analysis = analyze_currency_relationship d invoice1 invoice2,
          cmp_temporal_analysis = analyze_submission_timing d invoice1 invoice2\<rparr>)"

subsection \<open>Evidence and confidence\<close>

record evidence =
  matches :: "regional_invoice list"
  similarity_scores :: "(str \<times> real) list"
  matching_elements :: "(str \<times> element_scores) list"
  currency_analysis :: "(str \<times> currency_result) list"
  temporal_analysis :: "(str \<times> temporal_result) list"

definition empty_evidence :: evidence where
  "empty_evidence =
     \<lparr>matches = [], similarity_scores = [], matching_elements = [], currency_analysis = [],
      temporal_analysis = []\<rparr>"

definition analyze_step ::
    "runtime \<Rightarrow> detector \<Rightarrow> regional_invoice \<Rightarrow> regional_invoice \<Rightarrow> evidence \<Rightarrow> evidence" where
  \<comment> \<open>the body of the loop of \<^verbatim>\<open>_analyze_content_similarity\<close>\<close>
  "analyze_step rt d current_invoice duplicate ev =
     (let match_evidence = compare_invoices_detailed rt d current_invoice duplicate
      in if overall_similarity match_evidence > similarity_threshold (patterns d)
         then \<lparr>matches = matches ev @ [duplicate],
               similarity_scores =
                 AList.update (invoice_id duplicate) (overall_similarity match_evidence)
                   (similarity_scores ev),
               matching_elements =
                 AList.update (invoice_id duplicate) (cmp_matching_elements match_evidence)
                   (matching_elements ev),
               currency_analysis =
                 AList.update (invoice_id duplicate) (cmp_currency_analysis match_evidence)
                   (currency_analysis ev),
               temporal_analysis =
                 AList.update (invoice_id duplicate) (cmp_temporal_analysis match_evidence)
                   (temporal_analysis ev)\<rparr>
         else ev)"

definition analyze_content_similarity ::
    "runtime \<Rightarrow> detector \<Rightarrow> regional_invoice \<Rightarrow> regional_invoice list \<Rightarrow> evidence" where
  "analyze_content_similarity rt d current_invoice potential_duplicates =
     fold (analyze_step rt d current_invoice) potential_duplicates empty_evidence"

datatype py_error = ValueError

definition calculate_fraud_confidence :: "evidence \<Rightarrow> py_error + real" where
  \<comment> \<open>\<^verbatim>\<open>max\<close> of an empty sequence raises \<^verbatim>\<open>ValueError\<close>\<close>
  "calculate_fraud_confidence ev =
     (if matches ev = [] then Inr 0
      else (case map snd (similarity_scores ev) of
              [] \<Rightarrow> Inl ValueError
            | v # vs \<Rightarrow>
                (let max_similarity = fold max vs v;
                     confidence = max_similarity;
                     region_multiplier =
                       min (15 / 10) (1 + real_of_int (int (length (matches ev)) - 1) * (2 / 10));
                     confidence = confidence * region_multiplier;
                     confidence =
                       fold (\<lambda>(match_id, currency_data) c.
                               if suspicious currency_data then c + 1 / 10 else c)
                         (currency_analysis ev) confidence;
                     confidence =
                       fold (\<lambda>(match_id, temporal_data) c.
                               if suspicious_timing temporal_data then c + 5 / 100 else c)
                         (temporal_analysis ev) confidence
                 in Inr (min (99 / 100) confidence))))"

definition aggregate_spec :: "(real \<times> bool \<times> bool) list \<Rightarrow> real" where
  \<comment> \<open>The aggregate in the words of the specification, over one triple per match: its
      overall similarity, whether the currency analysis flags it suspicious, whether its time
      gap is within the fraud time window. It is compared with
      \<open>calculate_fraud_confidence\<close> below.\<close>
  "aggregate_spec ms =
     (if ms = [] then 0
      else max 0 (min (99 / 100)
             (Max (set (map fst ms)) * min (15 / 10) (1 + 2 / 10 * (real (length ms) - 1))
              + 1 / 10 * real (length (filter (\<lambda>m. fst (snd m)) ms))
              + 5 / 100 * real (length (filter (\<lambda>m. snd (snd m)) ms)))))"

subsection \<open>Loss, alert and decision\<close>

definition calculate_potential_loss ::
    "detector \<Rightarrow> regional_invoice \<Rightarrow> regional_invoice list \<Rightarrow> real" where
  \<comment> \<open>the source also converts the current invoice's amount, and does not use it\<close>
  "calculate_potential_loss d current_invoice duplicates =
     (let duplicate_usd = fold (\<lambda>duplicate acc. acc + to_usd d duplicate) duplicates 0
      in py_round2 duplicate_usd)"

record fraud_alert =
  alert_id :: str
  fraud_type :: str
  confidence_score :: real
  affected_regions :: "str list"
  duplicate_invoices :: "regional_invoice list"
  potential_loss :: real
  evidence_details :: evidence
  recommended_action :: str
  business_impact :: "(str \<times> str) list"

definition calculate_business_impact :: "runtime \<Rightarrow> real \<Rightarrow> str list \<Rightarrow> real \<Rightarrow> (str \<times> str) list" where
  "calculate_business_impact rt loss affected confidence =
     [(asc ''financial_impact'',
       asc ''$'' @ fmt_money rt loss @ asc '' potential duplicate payments prevented''),
      (asc ''operational_impact'',
       fmt_int rt (length affected)
       @ asc '' regional offices affected - coordinated response required''),
      (asc ''reputational_impact'',
       asc ''High - multi-regional fraud attempt indicates sophisticated attack''),
      (asc ''compliance_impact'',
       asc ''Cross-border fraud investigation may require regulatory reporting''),
      (asc ''detection_benefit'',
       asc ''AI detected in real-time vs typical 3-6 month discovery period''),
      (asc ''confidence_level'',
       fmt_percent rt confidence @ asc '' confidence in fraud detection'')]"

definition generate_action_recommendation :: "real \<Rightarrow> real \<Rightarrow> str list \<Rightarrow> str" where
  "generate_action_recommendation confidence loss affected =
     (if confidence > 90 / 100
      then [0xF8FF, 0xFC, 0xF6, 0xAE]
           @ asc '' IMMEDIATE ACTION: Block all invoices, freeze vendor payments, ''
           @ asc ''initiate fraud investigation across all affected regions''
      else if confidence > 85 / 100
      then [0x201A, 0xF6, 0x2020, 0xD4, 0x220F, 0xE8]
           @ asc '' HIGH PRIORITY: Hold all payments, require manager approval, ''
           @ asc ''coordinate cross-regional verification''
      else if confidence > 75 / 100
      then [0x201A, 0xF6, 0xB0]
           @ asc '' ENHANCED REVIEW: Flag for detailed manual review, ''
           @ asc ''verify with vendor directly, confirm legitimacy''
      else [0xF8FF, 0xFC, 0xEC, 0xE3]
           @ asc '' MONITOR: Continue monitoring, document patterns, ''
           @ asc ''increase verification requirements'')"

definition generate_fraud_alert ::
    "runtime \<Rightarrow> int \<Rightarrow> regional_invoice \<Rightarrow> regional_invoice list \<Rightarrow> evidence \<Rightarrow> real \<Rightarrow> real
     \<Rightarrow> fraud_alert" where
  \<comment> \<open>\<open>now\<close> is the clock read for the alert id\<close>
  "generate_fraud_alert rt now current_invoice duplicates ev confidence loss =
     (let affected = region current_invoice # map region duplicates;
          all_invoices = current_invoice # duplicates
      in \<lparr>alert_id = asc ''FRAUD-'' @ strftime_compact rt now @ asc ''-''
                      @ region current_invoice,
          fraud_type = asc ''Multi-Regional Duplicate Attack'',
          confidence_score = confidence,
          affected_regions = py_list_set rt affected,
          duplicate_invoices = all_invoices,
          potential_loss = loss,
          evidence_details = ev,
          recommended_action = generate_action_recommendation confidence loss affected,
          business_impact = calculate_business_impact rt loss affected confidence\<rparr>)"

definition add_to_regional_database :: "detector \<Rightarrow> regional_invoice \<Rightarrow> detector" where
  "add_to_regional_database d invoice =
     d\<lparr>cross_regional_database := cross_regional_database d @ [invoice]\<rparr>"

definition detect_multi_regional_fraud ::
    "runtime \<Rightarrow> detector \<Rightarrow> invoice_data \<Rightarrow> int \<Rightarrow> int
     \<Rightarrow> py_error + (fraud_alert option \<times> detector)" where
  \<comment> \<open>\<open>now\<close> is the clock at the creation of the invoice, \<open>now'\<close> the clock at the alert; the
      result is the returned alert (\<open>None\<close> for Python's \<^verbatim>\<open>None\<close>) and the detector after the
      call\<close>
  "detect_multi_regional_fraud rt d data now now' =
     (let current_invoice = create_regional_invoice rt data now;
          potential_duplicates = search_cross_regional_duplicates rt d current_invoice;
          fraud_evidence = analyze_content_similarity rt d current_invoice potential_duplicates
      in case calculate_fraud_confidence fraud_evidence of
           Inl e \<Rightarrow> Inl e
         | Inr confidence \<Rightarrow>
             (let loss = calculate_potential_loss d current_invoice potential_duplicates
              in if confidence > 75 / 100
                 then Inr (Some (generate_fraud_alert rt now' current_invoice
                                   potential_duplicates fraud_evidence confidence loss),
                           d)
                 else Inr (None, add_to_regional_database d current_invoice)))"

subsection \<open>The fraud analysis of the master system\<close>

record db_entry =
  entry_invoice_id :: str
  entry_region :: str
  entry_content_fingerprint :: str
  entry_usd_amount :: real
  entry_timestamp :: int

record master =
  master_database :: "db_entry list"
  master_similarity_threshold :: real
  master_time_window_hours :: real

definition init_master :: master where
  \<comment> \<open>the fields of \<^verbatim>\<open>ApteanAIMasterSystem.__init__\<close> that the fraud analysis reads\<close>
  "init_master =
     \<lparr>master_database = [], master_similarity_threshold = 85 / 100,
      master_time_window_hours = 72\<rparr>"

record duplicate_info =
  dup_invoice_id :: str
  dup_region :: str
  dup_similarity :: real
  dup_amount_usd :: real
  dup_time_diff_hours :: real

record fraud_result =
  fraud_detected :: bool
  result_fraud_type :: "str option"
  result_confidence :: real
  result_potential_duplicates :: "duplicate_info list"
  potential_loss_usd :: real
  regions_affected :: nat

fun master_loop :: "runtime \<Rightarrow> master \<Rightarrow> str \<Rightarrow> str \<Rightarrow> int \<Rightarrow> db_entry list \<Rightarrow> duplicate_info list" where
  \<comment> \<open>times in microseconds\<close>
  "master_loop rt m region' content_fingerprint current_time [] = []"
| "master_loop rt m region' content_fingerprint current_time (existing_invoice # rest) =
     (if entry_region existing_invoice = region'
      then master_loop rt m region' content_fingerprint current_time rest
      else (let time_diff =
                  \<bar>real_of_int (current_time - entry_timestamp existing_invoice) / 1000000 / 3600\<bar>
            in if time_diff > master_time_window_hours m
               then master_loop rt m region' content_fingerprint current_time rest
               else (let similarity =
                           ratio rt content_fingerprint
                             (entry_content_fingerprint existing_invoice)
                     in if similarity > master_similarity_threshold m
                        then \<lparr>dup_invoice_id = entry_invoice_id existing_invoice,
                              dup_region = entry_region existing_invoice,
                              dup_similarity = similarity,
                              dup_amount_usd = entry_usd_amount existing_invoice,
                              dup_time_diff_hours = time_diff\<rparr>
                             # master_loop rt m region' content_fingerprint current_time rest
                        else master_loop rt m region' content_fingerprint current_time rest)))"

definition multi_regional_fraud_analysis ::
    "runtime \<Rightarrow> master \<Rightarrow> invoice_data \<Rightarrow> real \<Rightarrow> int \<Rightarrow> fraud_result \<times> master" where
  "multi_regional_fraud_analysis rt m data usd_amount current_time =
     (let invoice_text = get_or (data_invoice_text data) [];
          invoice_id' = get_or (data_invoice_id data) [];
          region' = get_or (data_region data) (asc ''Unknown'');
          content_fingerprint = create_content_fingerprint (unicode rt) invoice_text;
          potential_duplicates =
            master_loop rt m region' content_fingerprint current_time (master_database m);
          m' = m\<lparr>master_database := master_database m
                  @ [\<lparr>entry_invoice_id = invoice_id', entry_region = region',
                      entry_content_fingerprint = content_fingerprint,
                      entry_usd_amount = usd_amount, entry_timestamp = current_time\<rparr>]\<rparr>
      in case map dup_similarity potential_duplicates of
           [] \<Rightarrow>
             (\<lparr>fraud_detected = False, result_fraud_type = None, result_confidence = 0,
                   result_potential_duplicates = potential_duplicates,
                   potential_loss_usd = 0, regions_affected = 1\<rparr>, m')
         | v # vs \<Rightarrow>
             (\<lparr>fraud_detected = True,
                   result_fraud_type = Some (asc ''Multi-Regional Duplicate Attack''),
                   result_confidence = fold max vs v,
                   result_potential_duplicates = potential_duplicates,
                   potential_loss_usd = sum_list (map dup_amount_usd potential_duplicates),
                   regions_affected =
                     length (remdups (map dup_region potential_duplicates)) + 1\<rparr>, m'))"

subsection \<open>Concrete inputs\<close>

definition plain_unicode :: unicode_db where
  \<comment> \<open>Unicode tables for the examples: their texts are ASCII, except for the Greek letter pi,
      whose capital U+03A0 \<^verbatim>\<open>str.lower()\<close> maps to U+03C0\<close>
  "plain_unicode =
     \<lparr>u_lower = map (\<lambda>c. if c = 0x3A0 then 0x3C0 else ascii_lower c),
      u_decimal = (\<lambda>c. None),
      u_alnum = (\<lambda>c. c = 0x3A0 \<or> c = 0x3C0)\<rparr>"

definition plain_runtime :: runtime where
  \<comment> \<open>an interpreter for the examples: its \<open>ratio\<close> is 1 on equal strings, as \<^verbatim>\<open>difflib\<close>'s
      is, and 0 on the others; its sets iterate in order of insertion\<close>
  "plain_runtime =
     \<lparr>unicode = plain_unicode,
      ratio = (\<lambda>a b. if a = b then 1 else 0),
      md5_hexdigest = (\<lambda>s. s),
      set_order = (\<lambda>xs. xs),
      strftime_compact = (\<lambda>t. []),
      fmt_money = (\<lambda>x. []),
      fmt_percent = (\<lambda>x. []),
      fmt_int = (\<lambda>n. [])\<rparr>"

definition zero_invoice :: regional_invoice where
  "zero_invoice =
     create_regional_invoice plain_runtime
       \<lparr>data_invoice_id = Some (asc ''Z-1''), data_region = Some (asc ''USA''),
        data_currency = Some (asc ''USD''), data_total_amount = Some 0,
        data_invoice_text = None\<rparr> 0"

definition crown_invoice :: regional_invoice where
  "crown_invoice =
     create_regional_invoice plain_runtime
       \<lparr>data_invoice_id = Some (asc ''S-1''), data_region = Some (asc ''Sweden''),
        data_currency = Some (asc ''SEK''), data_total_amount = Some 100,
        data_invoice_text = None\<rparr> 0"

definition sample_text :: str where
  "sample_text = asc ''PO: A1'' @ [10] @ asc ''Item: x'' @ [10] @ asc ''Delivery: y''"

definition address_text :: str where
  "address_text = asc ''Delivery: y''"

definition long_address_text :: str where
  "long_address_text = asc ''Delivery: y z''"

definition data_de :: invoice_data where
  "data_de =
     \<lparr>data_invoice_id = Some (asc ''DE-1''), data_region = Some (asc ''Germany''),
      data_currency = Some (asc ''EUR''), data_total_amount = Some 50000,
      data_invoice_text = Some sample_text\<rparr>"

definition data_uk :: invoice_data where
  "data_uk =
     \<lparr>data_invoice_id = Some (asc ''UK-1''), data_region = Some (asc ''UK''),
      data_currency = Some (asc ''GBP''), data_total_amount = Some 1000,
      data_invoice_text = Some address_text\<rparr>"

definition data_fr :: invoice_data where
  "data_fr =
     \<lparr>data_invoice_id = Some (asc ''FR-1''), data_region = Some (asc ''France''),
      data_currency = Some (asc ''EUR''), data_total_amount = Some 1000,
      data_invoice_text = Some long_address_text\<rparr>"

definition data_us :: invoice_data where
  "data_us =
     \<lparr>data_invoice_id = Some (asc ''US-1''), data_region = Some (asc ''USA''),
      data_currency = Some (asc ''USD''), data_total_amount = Some 55000,
      data_invoice_text = Some sample_text\<rparr>"

definition invoice_de :: regional_invoice where
  "invoice_de = create_regional_invoice plain_runtime data_de 0"

definition invoice_uk :: regional_invoice where
  "invoice_uk = create_regional_invoice plain_runtime data_uk 3600"

definition invoice_fr :: regional_invoice where
  "invoice_fr = create_regional_invoice plain_runtime data_fr 7200"

definition invoice_us :: "int \<Rightarrow> regional_invoice" where
  "invoice_us now = create_regional_invoice plain_runtime data_us now"

definition detector_de :: detector where
  \<comment> \<open>the detector after the German invoice alone was submitted\<close>
  "detector_de = init_detector\<lparr>cross_regional_database := [invoice_de]\<rparr>"

definition detector_de_uk :: detector where
  \<comment> \<open>the detector after the German and then the British invoice were submitted\<close>
  "detector_de_uk = init_detector\<lparr>cross_regional_database := [invoice_de, invoice_uk]\<rparr>"

definition alert_us :: fraud_alert where
  \<comment> \<open>the alert that the American invoice raises after the German and the British one\<close>
  "alert_us =
     generate_fraud_alert plain_runtime 7201 (invoice_us 7200) [invoice_de, invoice_uk]
       (analyze_content_similarity plain_runtime detector_de_uk (invoice_us 7200)
          [invoice_de, invoice_uk])
       (99 / 100) 60280"

definition master_de :: master where
  \<comment> \<open>the master system after the German invoice was submitted; its clock is in
      microseconds\<close>
  "master_de = snd (multi_regional_fraud_analysis plain_runtime init_master data_de 59000 0)"

definition master_de_uk :: master where
  \<comment> \<open>the master system after the German and then the British invoice were submitted\<close>
  "master_de_uk =
     snd (multi_regional_fraud_analysis plain_runtime master_de data_uk 1280 3600000000)"


definition keyword_text :: str where
  \<comment> \<open>a text with two keywords\<close>
  "keyword_text = asc ''software Microsoft''"

definition reversed_runtime :: runtime where
  \<comment> \<open>another interpreter process: the same tables, another iteration order of sets\<close>
  "reversed_runtime = plain_runtime\<lparr>set_order := rev\<rparr>"

definition po_item_text :: str where
  \<comment> \<open>the text of the German invoice without its delivery line\<close>
  "po_item_text = asc ''PO: A1'' @ [10] @ asc ''Item: x'' @ [10]"

definition table_runtime :: runtime where
  \<comment> \<open>the interpreter of the examples with the value 0.76 of \<^verbatim>\<open>difflib\<close> on the one
      pair of different strings that the Canadian example compares\<close>
  "table_runtime =
     plain_runtime
       \<lparr>ratio := (\<lambda>a b. if a = b then 1
                       else if a = asc ''po: aamount item: x''
                               \<and> b = asc ''po: aamount item: x delivery: y''
                       then 19 / 25 else 0)\<rparr>"

definition data_ca :: invoice_data where
  "data_ca =
     \<lparr>data_invoice_id = Some (asc ''CA-1''), data_region = Some (asc ''Canada''),
      data_currency = Some (asc ''CAD''), data_total_amount = Some 1000,
      data_invoice_text = Some po_item_text\<rparr>"

definition invoice_ca :: regional_invoice where
  \<comment> \<open>submitted exactly 72 hours after the German invoice\<close>
  "invoice_ca = create_regional_invoice table_runtime data_ca 259200"


subsection \<open>Whitespace in normal form\<close>



section \<open>Properties\<close>

subsection \<open>Evaluation of the examples\<close>

lemmas rx_defs = re_sub_def re_findall_def re_search_def re_match_def py_lower_def asc_def
  One_def Opt_def Star_def Plus_def LazyPlus_def cls_match_def is_space_def py_strip_def
  ascii_lower_def ascii_upper_def is_digit_def digit_value_def below_def at_eos_def
  at_boundary_def is_word_def ci_eq_def in_range_ci_def plain_unicode_def plain_runtime_def

lemmas fp_defs = generate_content_fingerprint_def vendor_patterns_def line_patterns_def
  amount_patterns_def po_patterns_def address_patterns_def label_line_def label_line_eos_def
  label_ref_def alnum_hyphen_def currency_symbols_def extract_amounts_def extract_keywords_def
  py_list_set_def normalize_content_for_comparison_def currency_symbol_pattern_def
  currency_code_pattern_def invoice_number_pattern_def date_pattern_def amount_pattern_def
  whitespace_pattern_def py_float_def List.map_filter_def Let_def

lemma fp_sample:
  "generate_content_fingerprint plain_runtime sample_text =
     \<lparr>content_hash = asc ''po: aamount item: x delivery: y'', vendor_name = [],
      line_items = [asc ''x''], amounts = [], po_reference = asc ''A1'',
      delivery_address = asc ''y'',
      normalized_content = asc ''po: aamount item: x delivery: y'',
      extracted_keywords = []\<rparr>"
  by (simp add: sample_text_def fp_defs rx_defs)

lemma fp_address:
  "generate_content_fingerprint plain_runtime address_text =
     \<lparr>content_hash = asc ''delivery: y'', vendor_name = [], line_items = [], amounts = [],
      po_reference = [], delivery_address = asc ''y'',
      normalized_content = asc ''delivery: y'', extracted_keywords = []\<rparr>"
  by (simp add: address_text_def fp_defs rx_defs)

lemma fp_long_address:
  "generate_content_fingerprint plain_runtime long_address_text =
     \<lparr>content_hash = asc ''delivery: y z'', vendor_name = [], line_items = [], amounts = [],
      po_reference = [], delivery_address = asc ''y z'',
      normalized_content = asc ''delivery: y z'', extracted_keywords = []\<rparr>"
  by (simp add: long_address_text_def fp_defs rx_defs)

lemmas invoice_defs = create_regional_invoice_def get_or_def data_de_def data_uk_def
  data_fr_def data_us_def

lemma invoice_de_eq:
  "invoice_de =
     \<lparr>invoice_id = asc ''DE-1'', region = asc ''Germany'', currency = asc ''EUR'',
      total_amount = 50000, submission_timestamp = 0,
      fingerprint = generate_content_fingerprint plain_runtime sample_text,
      processing_status = asc ''pending''\<rparr>"
  by (simp add: invoice_de_def invoice_defs)

lemma invoice_uk_eq:
  "invoice_uk =
     \<lparr>invoice_id = asc ''UK-1'', region = asc ''UK'', currency = asc ''GBP'',
      total_amount = 1000, submission_timestamp = 3600,
      fingerprint = generate_content_fingerprint plain_runtime address_text,
      processing_status = asc ''pending''\<rparr>"
  by (simp add: invoice_uk_def invoice_defs)

lemma invoice_fr_eq:
  "invoice_fr =
     \<lparr>invoice_id = asc ''FR-1'', region = asc ''France'', currency = asc ''EUR'',
      total_amount = 1000, submission_timestamp = 7200,
      fingerprint = generate_content_fingerprint plain_runtime long_address_text,
      processing_status = asc ''pending''\<rparr>"
  by (simp add: invoice_fr_def invoice_defs)

lemma invoice_us_eq:
  "invoice_us now =
     \<lparr>invoice_id = asc ''US-1'', region = asc ''USA'', currency = asc ''USD'',
      total_amount = 55000, submission_timestamp = now,
      fingerprint = generate_content_fingerprint plain_runtime sample_text,
      processing_status = asc ''pending''\<rparr>"
  by (simp add: invoice_us_def invoice_defs)


subsection \<open>Currency reconciliation\<close>

lemma to_usd_zero: "to_usd init_detector zero_invoice = 0"
  by (simp add: to_usd_def zero_invoice_def create_regional_invoice_def get_or_def Let_def)

lemma to_usd_crown: "to_usd init_detector crown_invoice = 100"
  by (simp add: to_usd_def crown_invoice_def create_regional_invoice_def get_or_def Let_def
      init_detector_def default_rates_def rate_of_def asc_def)

lemma crown_unknown:
  "map_of (currency_rates_to_usd init_detector) (currency crown_invoice) = None"
  by (simp add: crown_invoice_def create_regional_invoice_def get_or_def Let_def
      init_detector_def default_rates_def asc_def)

lemma crown_total: "total_amount crown_invoice = 100"
  by (simp add: crown_invoice_def create_regional_invoice_def get_or_def Let_def)

lemma init_threshold: "vendor_variance_threshold (patterns init_detector) = 1 / 10"
  by (simp add: init_detector_def default_patterns_def)

text \<open>
  Claim C7, as the code has it. Both amounts are converted with the rate table, an unknown
  currency at the rate 1. The variance fraction is \<open>|a - b| / a\<close> when the first converted
  amount \<open>a\<close> is positive and 1 whenever \<open>a \<le> 0\<close>: also when both amounts are 0, and for a
  negative \<open>a\<close>. The pair is suspicious exactly when the variance fraction is strictly below
  the vendor variance threshold, that is when \<open>0 < a\<close> and \<open>|a - b| < threshold * a\<close> (or
  the threshold is above 1).
\<close>

theorem currency_reconciliation:
  "(case map_of (currency_rates_to_usd d) (currency i1) of
      None \<Rightarrow> to_usd d i1 = total_amount i1
    | Some r \<Rightarrow> to_usd d i1 = total_amount i1 * r)
   \<and> currency_variance d i1 i2 =
       (if 0 < to_usd d i1 then \<bar>to_usd d i1 - to_usd d i2\<bar> / to_usd d i1 else 1)
   \<and> suspicious (analyze_currency_relationship d i1 i2) =
       (currency_variance d i1 i2 < vendor_variance_threshold (patterns d))
   \<and> suspicious (analyze_currency_relationship d i1 i2) =
       (if 0 < to_usd d i1
        then \<bar>to_usd d i1 - to_usd d i2\<bar> < vendor_variance_threshold (patterns d) * to_usd d i1
        else 1 < vendor_variance_threshold (patterns d))"
  by (simp add: to_usd_def rate_of_def currency_variance_def analyze_currency_relationship_def
      Let_def pos_divide_less_eq split: option.split)

theorem currency_reconciliation_witness:
  "map_of (currency_rates_to_usd init_detector) (currency crown_invoice) = None
   \<and> to_usd init_detector crown_invoice = total_amount crown_invoice
   \<and> currency_variance init_detector crown_invoice zero_invoice = 1
   \<and> \<not> suspicious (analyze_currency_relationship init_detector crown_invoice zero_invoice)
   \<and> currency_variance init_detector zero_invoice crown_invoice = 1"
proof -
  note a = currency_reconciliation [of init_detector crown_invoice zero_invoice]
  note b = currency_reconciliation [of init_detector zero_invoice crown_invoice]
  show ?thesis
    using a b crown_unknown crown_total init_threshold to_usd_zero to_usd_crown by simp
qed

text \<open>
  Claim C7 as stated fails: with both converted amounts 0 the variance fraction is 1, not 0.
\<close>

theorem currency_variance_counterexample:
  "to_usd init_detector zero_invoice = 0
   \<and> currency_variance init_detector zero_invoice zero_invoice \<noteq> 0"
  using to_usd_zero by (simp add: currency_variance_def Let_def)

subsection \<open>Candidate search\<close>

lemma quick_check_calls_filter:
  "quick_check_calls d cur db =
     filter (\<lambda>e. \<bar>submission_timestamp cur - submission_timestamp e\<bar>
                       \<le> time_window_hours (patterns d) * 3600
                     \<and> region e \<noteq> region cur) db"
  by (induction db) auto

lemma search_loop_calls:
  "search_loop rt d cur db = filter (quick_similarity_check rt cur) (quick_check_calls d cur db)"
  by (induction db) auto

text \<open>
  Claim C5. The loop of the candidate search hands to the pre-filter exactly the stored
  invoices whose submission time differs from the reference's by at most the window (the
  comparison that skips is \<open>>\<close>, so a difference of exactly the window is kept) and whose
  region differs from the reference's; its result is the pre-filter applied to those, so no
  stored invoice outside the window or of the same region is compared.
\<close>

theorem candidate_search_window:
  "quick_check_calls d cur (cross_regional_database d) =
     filter (\<lambda>e. \<bar>submission_timestamp cur - submission_timestamp e\<bar>
                       \<le> time_window_hours (patterns d) * 3600
                     \<and> region e \<noteq> region cur)
       (cross_regional_database d)
   \<and> search_cross_regional_duplicates rt d cur =
       filter (quick_similarity_check rt cur)
         (quick_check_calls d cur (cross_regional_database d))"
  by (simp add: search_cross_regional_duplicates_def search_loop_calls quick_check_calls_filter)

lemma quick_us_de: "quick_similarity_check plain_runtime (invoice_us now) invoice_de"
  by (simp add: quick_similarity_check_def invoice_us_eq invoice_de_eq fp_sample Let_def
      asc_def)

lemma detector_de_window: "time_window_hours (patterns detector_de) = 72"
  by (simp add: detector_de_def init_detector_def default_patterns_def)

theorem candidate_search_window_witness:
  "search_cross_regional_duplicates plain_runtime detector_de (invoice_us 259200) = [invoice_de]
   \<and> search_cross_regional_duplicates plain_runtime detector_de (invoice_us 259201) = []
   \<and> search_cross_regional_duplicates plain_runtime detector_de invoice_de = []"
proof -
  have db: "cross_regional_database detector_de = [invoice_de]"
    by (simp add: detector_de_def)
  have r: "region (invoice_us now) \<noteq> region invoice_de"
    "region invoice_de \<noteq> region (invoice_us now)" for now
    by (simp_all add: invoice_us_eq invoice_de_eq asc_def)
  have t: "submission_timestamp (invoice_us now) = now" "submission_timestamp invoice_de = 0" for now
    by (simp_all add: invoice_us_eq invoice_de_eq)
  show ?thesis
    using candidate_search_window [of detector_de "invoice_us 259200" plain_runtime]
      candidate_search_window [of detector_de "invoice_us 259201" plain_runtime]
      candidate_search_window [of detector_de invoice_de plain_runtime]
      db r t quick_us_de detector_de_window
    by simp
qed


subsection \<open>Pre-filter\<close>

lemma is_prefix_iff: "is_prefix xs ys \<longleftrightarrow> (\<exists>s. ys = xs @ s)"
  by (induction xs ys rule: is_prefix.induct) auto

lemma py_in_iff: "py_in xs ys \<longleftrightarrow> (\<exists>p s. ys = p @ xs @ s)"
proof (induction ys)
  case Nil
  then show ?case by auto
next
  case (Cons y ys)
  show ?case
  proof
    assume "py_in xs (y # ys)"
    then consider "is_prefix xs (y # ys)" | "py_in xs ys" by auto
    then show "\<exists>p s. y # ys = p @ xs @ s"
    proof cases
      case 1
      then obtain s where "y # ys = xs @ s" by (auto simp: is_prefix_iff)
      then have "y # ys = [] @ xs @ s" by simp
      then show ?thesis by blast
    next
      case 2
      then obtain p s where "ys = p @ xs @ s" using Cons.IH by blast
      then have "y # ys = (y # p) @ xs @ s" by simp
      then show ?thesis by blast
    qed
  next
    assume "\<exists>p s. y # ys = p @ xs @ s"
    then obtain p s where e: "y # ys = p @ xs @ s" by blast
    show "py_in xs (y # ys)"
    proof (cases p)
      case Nil
      then have "is_prefix xs (y # ys)" using e by (auto simp: is_prefix_iff)
      then show ?thesis by simp
    next
      case (Cons a p')
      then have "ys = p' @ xs @ s" using e by simp
      then have "py_in xs ys" using Cons.IH by blast
      then show ?thesis by simp
    qed
  qed
qed

text \<open>
  Claim C4, as the code has it. The pre-filter holds exactly when the purchase-order
  references are both non-empty and equal in lower case, or the vendor names are both
  non-empty and their similarity ratio exceeds 0.8, or the delivery addresses are both
  non-empty and the first invoice's address is, in lower case, a substring of the second's.
  Two invoices with the same non-empty purchase-order reference pass it.
\<close>

theorem pre_filter_candidate:
  "(quick_similarity_check rt i1 i2 \<longleftrightarrow>
      (po_reference (fingerprint i1) \<noteq> [] \<and> po_reference (fingerprint i2) \<noteq> []
       \<and> py_lower (unicode rt) (po_reference (fingerprint i1))
           = py_lower (unicode rt) (po_reference (fingerprint i2)))
      \<or> (vendor_name (fingerprint i1) \<noteq> [] \<and> vendor_name (fingerprint i2) \<noteq> []
          \<and> ratio rt (py_lower (unicode rt) (vendor_name (fingerprint i1)))
                (py_lower (unicode rt) (vendor_name (fingerprint i2))) > 8 / 10)
      \<or> (delivery_address (fingerprint i1) \<noteq> [] \<and> delivery_address (fingerprint i2) \<noteq> []
          \<and> (\<exists>p s. py_lower (unicode rt) (delivery_address (fingerprint i2))
                      = p @ py_lower (unicode rt) (delivery_address (fingerprint i1)) @ s)))
   \<and> (po_reference (fingerprint i1) \<noteq> []
        \<and> po_reference (fingerprint i2) = po_reference (fingerprint i1)
       \<longrightarrow> quick_similarity_check rt i1 i2)"
  by (auto simp: quick_similarity_check_def Let_def py_in_iff)

theorem pre_filter_candidate_witness:
  "po_reference (fingerprint (invoice_us 7200)) \<noteq> []
   \<and> po_reference (fingerprint invoice_de) = po_reference (fingerprint (invoice_us 7200))
   \<and> quick_similarity_check plain_runtime (invoice_us 7200) invoice_de"
  using pre_filter_candidate [of plain_runtime "invoice_us 7200" invoice_de]
  by (simp add: invoice_us_eq invoice_de_eq fp_sample asc_def)

text \<open>
  Claim C4 as stated fails: the substring test has one direction. The address of the
  stored British invoice is a substring of the address of the submitted French one, and the
  pre-filter rejects the pair.
\<close>

theorem pre_filter_counterexample:
  "delivery_address (fingerprint invoice_uk) \<noteq> []
   \<and> delivery_address (fingerprint invoice_fr) \<noteq> []
   \<and> py_in (py_lower (unicode plain_runtime) (delivery_address (fingerprint invoice_uk)))
        (py_lower (unicode plain_runtime) (delivery_address (fingerprint invoice_fr)))
   \<and> \<not> quick_similarity_check plain_runtime invoice_fr invoice_uk"
proof -
  have a: "delivery_address (fingerprint invoice_uk) = [121]"
    "delivery_address (fingerprint invoice_fr) = [121, 32, 122]"
    "po_reference (fingerprint invoice_uk) = []" "vendor_name (fingerprint invoice_uk) = []"
    by (simp_all add: invoice_fr_eq invoice_uk_eq fp_address fp_long_address asc_def)
  have l: "py_lower (unicode plain_runtime) [121] = [121]"
    "py_lower (unicode plain_runtime) [121, 32, 122] = [121, 32, 122]"
    by (simp_all add: py_lower_def ascii_lower_def)
  show ?thesis
    by (simp add: quick_similarity_check_def Let_def a l)
qed

subsection \<open>Detailed comparison\<close>

lemma fold_inner:
  "fold (\<lambda>item2 (total, n). (total + f item2, Suc n)) items2 (t0 :: real, n0) =
     (t0 + sum_list (map f items2), n0 + length items2)"
  by (induction items2 arbitrary: t0 n0) (simp_all add: algebra_simps)

lemma fold_outer:
  "fold (\<lambda>item1. fold (\<lambda>item2 (total, n). (total + f item1 item2, Suc n)) items2)
       items1 (t0 :: real, n0) =
     (t0 + sum_list (map (\<lambda>item1. sum_list (map (f item1) items2)) items1),
      n0 + length items1 * length items2)"
proof (induction items1 arbitrary: t0 n0)
  case Nil
  then show ?case by simp
next
  case (Cons a items1)
  show ?case
    by (simp add: fold_inner Cons.IH algebra_simps)
qed

lemma compare_line_items_average:
  "compare_line_items rt items1 items2 =
     (if items1 = [] \<or> items2 = [] then 0
      else sum_list (map (\<lambda>item1. sum_list (map (\<lambda>item2.
               ratio rt (py_lower (unicode rt) item1) (py_lower (unicode rt) item2)) items2))
             items1)
           / real (length items1 * length items2))"
  by (simp add: compare_line_items_def fold_outer)

text \<open>
  Claim C3. With the weights of the source, the overall similarity of the detailed
  comparison is 0.30 times the similarity of the normalized contents, plus 0.30 times the
  indicator of an exact match of the purchase-order references (both non-empty, compared in
  lower case), plus 0.25 times the similarity of the delivery addresses (0 when one is
  empty), plus 0.45 times the average similarity over all pairs of line items (0 when one
  sequence is empty). The weights are not normalized: they sum to 1.30, and the witness is
  a pair of invoices whose overall similarity is 1.3.
\<close>

theorem weighted_overall_similarity:
  assumes "patterns d = default_patterns"
  shows "overall_similarity (compare_invoices_detailed rt d i1 i2) =
     3 / 10 * ratio rt (normalized_content (fingerprint i1)) (normalized_content (fingerprint i2))
     + 3 / 10 * (if po_reference (fingerprint i1) \<noteq> [] \<and> po_reference (fingerprint i2) \<noteq> []
                    \<and> py_lower (unicode rt) (po_reference (fingerprint i1))
                        = py_lower (unicode rt) (po_reference (fingerprint i2))
                 then 1 else 0)
     + 25 / 100 * (if delivery_address (fingerprint i1) \<noteq> []
                      \<and> delivery_address (fingerprint i2) \<noteq> []
                   then ratio rt (py_lower (unicode rt) (delivery_address (fingerprint i1)))
                          (py_lower (unicode rt) (delivery_address (fingerprint i2)))
                   else 0)
     + 45 / 100 * (if line_items (fingerprint i1) = [] \<or> line_items (fingerprint i2) = [] then 0
                   else sum_list (map (\<lambda>item1. sum_list (map (\<lambda>item2.
                            ratio rt (py_lower (unicode rt) item1) (py_lower (unicode rt) item2))
                          (line_items (fingerprint i2))))
                        (line_items (fingerprint i1)))
                        / real (length (line_items (fingerprint i1))
                                * length (line_items (fingerprint i2))))"
  using assms
  by (simp add: compare_invoices_detailed_def Let_def compare_line_items_average
      default_patterns_def)

lemma fields_us:
  "normalized_content (fingerprint (invoice_us now)) = asc ''po: aamount item: x delivery: y''"
  "po_reference (fingerprint (invoice_us now)) = asc ''A1''"
  "delivery_address (fingerprint (invoice_us now)) = asc ''y''"
  "line_items (fingerprint (invoice_us now)) = [asc ''x'']"
  "vendor_name (fingerprint (invoice_us now)) = []"
  by (simp_all add: invoice_us_eq fp_sample)

lemma fields_de:
  "normalized_content (fingerprint invoice_de) = asc ''po: aamount item: x delivery: y''"
  "po_reference (fingerprint invoice_de) = asc ''A1''"
  "delivery_address (fingerprint invoice_de) = asc ''y''"
  "line_items (fingerprint invoice_de) = [asc ''x'']"
  "vendor_name (fingerprint invoice_de) = []"
  by (simp_all add: invoice_de_eq fp_sample)

lemma ratio_plain: "ratio plain_runtime a b = (if a = b then 1 else 0)"
  by (simp add: plain_runtime_def)

theorem weighted_overall_similarity_witness:
  "patterns detector_de = default_patterns
   \<and> overall_similarity (compare_invoices_detailed plain_runtime detector_de (invoice_us 7200)
        invoice_de) = 13 / 10"
proof -
  have p: "patterns detector_de = default_patterns"
    by (simp add: detector_de_def init_detector_def)
  show ?thesis
    using weighted_overall_similarity [OF p, of plain_runtime "invoice_us 7200" invoice_de] p
    by (simp add: fields_us fields_de ratio_plain asc_def)
qed

subsection \<open>Confidence aggregation\<close>

lemma analyze_step_skip:
  "\<not> overall_similarity (compare_invoices_detailed rt d cur x) > similarity_threshold (patterns d)
   \<Longrightarrow> analyze_step rt d cur x ev = ev"
  by (simp add: analyze_step_def Let_def)

lemma fold_analyze_skip:
  "\<forall>x \<in> set xs. \<not> overall_similarity (compare_invoices_detailed rt d cur x)
                       > similarity_threshold (patterns d)
   \<Longrightarrow> fold (analyze_step rt d cur) xs ev = ev"
  by (induction xs arbitrary: ev) (simp_all add: analyze_step_skip)

lemma fold_analyze_matches:
  "matches (fold (analyze_step rt d cur) xs ev) =
     matches ev @ filter (\<lambda>x. overall_similarity (compare_invoices_detailed rt d cur x)
                              > similarity_threshold (patterns d)) xs"
  by (induction xs arbitrary: ev) (simp_all add: analyze_step_def Let_def)

lemma update_values: "(k', v') \<in> set (AList.update k v al) \<Longrightarrow> v' = v \<or> (k', v') \<in> set al"
  by (induction al) (auto split: if_splits)

lemma fold_analyze_scores_above:
  "\<forall>p \<in> set (similarity_scores ev). snd p > similarity_threshold (patterns d)
   \<Longrightarrow> \<forall>p \<in> set (similarity_scores (fold (analyze_step rt d cur) xs ev)).
         snd p > similarity_threshold (patterns d)"
proof (induction xs arbitrary: ev)
  case Nil
  then show ?case by simp
next
  case (Cons x xs)
  have "\<forall>p \<in> set (similarity_scores (analyze_step rt d cur x ev)).
          snd p > similarity_threshold (patterns d)"
    using Cons.prems by (auto simp: analyze_step_def Let_def dest: update_values)
  then show ?case using Cons.IH by simp
qed

lemma fold_analyze_scores_nonempty:
  "similarity_scores ev \<noteq> [] \<Longrightarrow> similarity_scores (fold (analyze_step rt d cur) xs ev) \<noteq> []"
proof (induction xs arbitrary: ev)
  case Nil
  then show ?case by simp
next
  case (Cons x xs)
  have "similarity_scores (analyze_step rt d cur x ev) \<noteq> []"
    using Cons.prems by (simp add: analyze_step_def Let_def update_nonempty)
  then show ?case using Cons.IH by simp
qed

lemma fold_analyze_scores_nonempty':
  "filter (\<lambda>x. overall_similarity (compare_invoices_detailed rt d cur x)
                  > similarity_threshold (patterns d)) xs \<noteq> []
   \<Longrightarrow> similarity_scores (fold (analyze_step rt d cur) xs ev) \<noteq> []"
proof (induction xs arbitrary: ev)
  case Nil
  then show ?case by simp
next
  case (Cons x xs)
  show ?case
  proof (cases "overall_similarity (compare_invoices_detailed rt d cur x)
                  > similarity_threshold (patterns d)")
    case True
    then have "similarity_scores (analyze_step rt d cur x ev) \<noteq> []"
      by (simp add: analyze_step_def Let_def update_nonempty)
    then show ?thesis by (simp add: fold_analyze_scores_nonempty)
  next
    case False
    then show ?thesis using Cons by (simp add: analyze_step_skip)
  qed
qed

lemma fold_max_ge: "(v :: real) \<le> fold max vs v"
  by (induction vs arbitrary: v) (auto intro: order_trans [OF max.cobounded2])

lemma fold_max_eq_Max: "fold max vs (v :: real) = Max (set (v # vs))"
  by (rule Max.set_eq_fold [symmetric])

lemma fold_boost:
  "fold (\<lambda>(k, x) c. if P x then c + b else c) al (c0 :: real) =
     c0 + b * real (length (filter (\<lambda>p. P (snd p)) al))"
  by (induction al arbitrary: c0) (auto simp: algebra_simps)


lemma clamp_big:
  fixes x m a b :: real
  assumes "85 / 100 < x" "12 / 10 \<le> m" "0 \<le> a" "0 \<le> b"
  shows "min (99 / 100) (x * m + a + b) = 99 / 100"
proof -
  have h: "x * (12 / 10) \<le> x * m"
    using assms by (intro mult_left_mono) auto
  have "99 / 100 \<le> x * m + a + b"
    using h assms by linarith
  then show ?thesis by simp
qed

lemma multiplier_big:
  "2 \<le> n \<Longrightarrow> (12 / 10 :: real) \<le> min (15 / 10) (1 + real_of_int (int n - 1) * (2 / 10))"
  by auto

lemma multiplier_big':
  "2 \<le> n \<Longrightarrow> (12 / 10 :: real) \<le> min (15 / 10) (1 + 2 / 10 * (real n - 1))"
  by auto

lemma confidence_many:
  assumes "2 \<le> length (matches ev)"
    and "similarity_scores ev \<noteq> []"
    and "\<forall>p \<in> set (similarity_scores ev). 85 / 100 < snd p"
  shows "calculate_fraud_confidence ev = Inr (99 / 100)"
proof -
  obtain p ps where e: "similarity_scores ev = p # ps"
    using assms(2) by (cases "similarity_scores ev") auto
  have "85 / 100 < snd p" using assms(3) e by simp
  then have x: "85 / 100 < fold max (map snd ps) (snd p)"
    using fold_max_ge [of "snd p" "map snd ps"] by simp
  have ne: "matches ev \<noteq> []" using assms(1) by auto
  define a where "a = 1 / 10 * real (length (filter (\<lambda>p. suspicious (snd p)) (currency_analysis ev)))"
  define b where "b = 5 / 100 * real (length (filter (\<lambda>p. suspicious_timing (snd p)) (temporal_analysis ev)))"
  define m where "m = min (15 / 10) (1 + real_of_int (int (length (matches ev)) - 1) * (2 / 10))"
  have "calculate_fraud_confidence ev =
          Inr (min (99 / 100) (fold max (map snd ps) (snd p) * m + a + b))"
    using ne e by (simp add: calculate_fraud_confidence_def Let_def fold_boost a_def b_def m_def)
  moreover have "0 \<le> a" "0 \<le> b" by (simp_all add: a_def b_def)
  moreover have "12 / 10 \<le> m" unfolding m_def by (rule multiplier_big [OF assms(1)])
  ultimately show ?thesis using clamp_big [OF x, of m a b] by simp
qed

lemma aggregate_spec_many:
  assumes "2 \<le> length ms" and "\<forall>m \<in> set ms. 85 / 100 < fst m"
  shows "aggregate_spec ms = 99 / 100"
proof -
  obtain m ms' where e: "ms = m # ms'" using assms(1) by (cases ms) auto
  have "fst m \<le> Max (set (map fst ms))" using e by simp
  moreover have "85 / 100 < fst m" using assms(2) e by simp
  ultimately have x: "85 / 100 < Max (set (map fst ms))" by simp
  define a where "a = 1 / 10 * real (length (filter (\<lambda>m. fst (snd m)) ms))"
  define b where "b = 5 / 100 * real (length (filter (\<lambda>m. snd (snd m)) ms))"
  define k where "k = min (15 / 10) (1 + 2 / 10 * (real (length ms) - 1))"
  have "ms \<noteq> []" using e by simp
  then have agg: "aggregate_spec ms = max 0 (min (99 / 100) (Max (set (map fst ms)) * k + a + b))"
    by (simp add: aggregate_spec_def a_def b_def k_def)
  have a0: "0 \<le> a" and b0: "0 \<le> b" by (simp_all add: a_def b_def)
  have kk: "12 / 10 \<le> k" unfolding k_def by (rule multiplier_big' [OF assms(1)])
  have c: "min (99 / 100) (Max (set (map fst ms)) * k + a + b) = 99 / 100"
    by (rule clamp_big [OF x kk a0 b0])
  show ?thesis unfolding agg c by simp
qed


lemma analyze_single:
  assumes "filter (\<lambda>x. overall_similarity (compare_invoices_detailed rt d cur x)
                         > similarity_threshold (patterns d)) dups = [m]"
  shows "analyze_content_similarity rt d cur dups = analyze_step rt d cur m empty_evidence"
proof -
  let ?P = "\<lambda>x. overall_similarity (compare_invoices_detailed rt d cur x)
                  > similarity_threshold (patterns d)"
  obtain us vs where dups: "dups = us @ m # vs" and us: "\<forall>u \<in> set us. \<not> ?P u"
    and vs: "[] = filter ?P vs"
    using assms unfolding filter_eq_Cons_iff by blast
  have vs': "\<forall>v \<in> set vs. \<not> ?P v"
    using vs by (metis filter_empty_conv)
  show ?thesis
    unfolding analyze_content_similarity_def dups
    by (simp add: fold_analyze_skip [OF us] fold_analyze_skip [OF vs'])
qed

lemma confidence_single:
  assumes "overall_similarity (compare_invoices_detailed rt d cur m)
             > similarity_threshold (patterns d)"
  shows "calculate_fraud_confidence (analyze_step rt d cur m empty_evidence) =
     Inr (min (99 / 100)
            (overall_similarity (compare_invoices_detailed rt d cur m)
             + (if suspicious (analyze_currency_relationship d cur m) then 1 / 10 else 0)
             + (if hours_diff cur m < real_of_int (time_window_hours (patterns d))
                then 5 / 100 else 0)))"
  using assms
  by (simp add: calculate_fraud_confidence_def analyze_step_def empty_evidence_def Let_def
      compare_invoices_detailed_def analyze_submission_timing_def)

lemma aggregate_spec_single:
  assumes "0 \<le> x"
  shows "aggregate_spec [(x, s, t)] =
     min (99 / 100) (x + (if s then 1 / 10 else 0) + (if t then 5 / 100 else 0))"
  using assms by (simp add: aggregate_spec_def)

text \<open>
  Claim C2, as the code has it. On the evidence that the content analysis builds from the
  candidates (pairwise threshold 0.85), the confidence of the code is the aggregate of the
  specification over the matches, the candidates whose overall similarity exceeds 0.85: 0
  when there is none, and otherwise the maximum similarity times
  \<open>min(1.5, 1.0 + 0.2 * (n - 1))\<close>, plus 0.10 for each match that the currency analysis
  flags suspicious and 0.05 for each match whose time gap in hours is strictly below the
  time window (a match exactly the window apart is a candidate and gets no boost), clamped
  to \<open>[0, 0.99]\<close>. The evidence dictionaries are keyed by invoice id; matches that share
  an id share an entry, which does not change the result, since two matches or more always
  reach the clamp. The aggregate, and so the result, lies in \<open>[0, 0.99]\<close>.
\<close>

theorem fraud_confidence_aggregate:
  assumes "similarity_threshold (patterns d) = 85 / 100"
  shows "calculate_fraud_confidence (analyze_content_similarity rt d cur dups) =
     Inr (aggregate_spec
            (map (\<lambda>m. (overall_similarity (compare_invoices_detailed rt d cur m),
                        suspicious (analyze_currency_relationship d cur m),
                        hours_diff cur m < real_of_int (time_window_hours (patterns d))))
               (filter (\<lambda>m. overall_similarity (compare_invoices_detailed rt d cur m)
                               > 85 / 100) dups)))
   \<and> aggregate_spec [] = 0
   \<and> 0 \<le> aggregate_spec ms \<and> aggregate_spec ms \<le> 99 / 100"
proof -
  let ?sim = "\<lambda>m. overall_similarity (compare_invoices_detailed rt d cur m)"
  let ?P = "\<lambda>m. ?sim m > similarity_threshold (patterns d)"
  let ?f = "\<lambda>m. (?sim m, suspicious (analyze_currency_relationship d cur m),
                  hours_diff cur m < real_of_int (time_window_hours (patterns d)))"
  let ?ms = "filter ?P dups"
  let ?ev = "analyze_content_similarity rt d cur dups"
  have m: "matches ?ev = ?ms"
    by (simp add: analyze_content_similarity_def fold_analyze_matches empty_evidence_def)
  have main: "calculate_fraud_confidence ?ev = Inr (aggregate_spec (map ?f ?ms))"
  proof -
    consider "?ms = []" | x where "?ms = [x]" | "2 \<le> length ?ms"
      by (cases ?ms rule: list.exhaust; cases "tl ?ms") (auto simp: Suc_le_eq)
    then show ?thesis
    proof cases
      case 1
      then show ?thesis using m
        by (simp add: calculate_fraud_confidence_def aggregate_spec_def)
    next
      case 2
      then have "x \<in> set ?ms" by simp
      then have px: "?P x" by simp
      then have "0 \<le> ?sim x" using assms by simp
      then show ?thesis
        using 2 px
        by (simp add: analyze_single [OF 2] confidence_single aggregate_spec_single)
    next
      case 3
      have a: "2 \<le> length (matches ?ev)" using 3 m by simp
      have ne: "?ms \<noteq> []" using 3 by auto
      have b: "similarity_scores ?ev \<noteq> []"
        unfolding analyze_content_similarity_def
        by (rule fold_analyze_scores_nonempty' [OF ne])
      have "\<forall>p \<in> set (similarity_scores ?ev). snd p > similarity_threshold (patterns d)"
        unfolding analyze_content_similarity_def
        by (rule fold_analyze_scores_above) (simp add: empty_evidence_def)
      then have c: "\<forall>p \<in> set (similarity_scores ?ev). 85 / 100 < snd p"
        using assms by simp
      have d: "2 \<le> length (map ?f ?ms)" using 3 by simp
      have e: "\<forall>t \<in> set (map ?f ?ms). 85 / 100 < fst t" using assms by auto
      show ?thesis
        by (simp only: confidence_many [OF a b c] aggregate_spec_many [OF d e])
    qed
  qed
  have bound: "0 \<le> aggregate_spec ms \<and> aggregate_spec ms \<le> 99 / 100"
    unfolding aggregate_spec_def by (simp add: max_def min_def)
  have empty: "aggregate_spec [] = 0"
    by (simp add: aggregate_spec_def)
  show ?thesis using main bound empty assms by simp
qed


lemma patterns_detector_de: "patterns detector_de = default_patterns"
  by (simp add: detector_de_def init_detector_def)

lemma overall_us_de:
  "overall_similarity (compare_invoices_detailed plain_runtime detector_de (invoice_us now)
     invoice_de) = 13 / 10"
  by (simp add: compare_invoices_detailed_def Let_def compare_line_items_def fields_us fields_de
      ratio_plain patterns_detector_de default_patterns_def asc_def)

lemma to_usd_us_de:
  "to_usd detector_de (invoice_us now) = 55000" "to_usd detector_de invoice_de = 59000"
  by (simp_all add: to_usd_def invoice_us_eq invoice_de_eq detector_de_def init_detector_def
      default_rates_def rate_of_def asc_def)

lemma suspicious_us_de:
  "suspicious (analyze_currency_relationship detector_de (invoice_us now) invoice_de)"
  by (simp add: analyze_currency_relationship_def currency_variance_def Let_def to_usd_us_de
      patterns_detector_de default_patterns_def)

lemma hours_us_de: "hours_diff (invoice_us 7200) invoice_de = 2"
  by (simp add: hours_diff_def invoice_us_eq invoice_de_eq)

lemma unicode_table: "unicode table_runtime = plain_unicode"
  by (simp add: table_runtime_def plain_runtime_def)

lemma fp_po_item:
  "generate_content_fingerprint table_runtime po_item_text =
     \<lparr>content_hash = asc ''po: aamount item: x'', vendor_name = [],
      line_items = [asc ''x''], amounts = [], po_reference = asc ''A1'',
      delivery_address = [], normalized_content = asc ''po: aamount item: x'',
      extracted_keywords = []\<rparr>"
  by (simp add: po_item_text_def fp_defs table_runtime_def rx_defs)

lemma invoice_ca_eq:
  "invoice_ca =
     \<lparr>invoice_id = asc ''CA-1'', region = asc ''Canada'', currency = asc ''CAD'',
      total_amount = 1000, submission_timestamp = 259200,
      fingerprint = generate_content_fingerprint table_runtime po_item_text,
      processing_status = asc ''pending''\<rparr>"
  by (simp add: invoice_ca_def create_regional_invoice_def get_or_def data_ca_def)

lemma fields_ca:
  "normalized_content (fingerprint invoice_ca) = asc ''po: aamount item: x''"
  "po_reference (fingerprint invoice_ca) = asc ''A1''"
  "delivery_address (fingerprint invoice_ca) = []"
  "line_items (fingerprint invoice_ca) = [asc ''x'']"
  "vendor_name (fingerprint invoice_ca) = []"
  by (simp_all add: invoice_ca_eq fp_po_item)

lemma ratio_table:
  "ratio table_runtime a b =
     (if a = b then 1
      else if a = asc ''po: aamount item: x'' \<and> b = asc ''po: aamount item: x delivery: y''
      then 19 / 25 else 0)"
  by (simp add: table_runtime_def)

lemma overall_ca_de:
  "overall_similarity (compare_invoices_detailed table_runtime detector_de invoice_ca invoice_de)
     = 489 / 500"
  by (simp add: compare_invoices_detailed_def Let_def compare_line_items_def fields_ca fields_de
      ratio_table patterns_detector_de default_patterns_def)
     (simp add: asc_def)

lemma quick_ca_de: "quick_similarity_check table_runtime invoice_ca invoice_de"
  by (simp add: quick_similarity_check_def Let_def fields_ca fields_de)
     (simp add: asc_def)

lemma search_ca:
  "search_cross_regional_duplicates table_runtime detector_de invoice_ca = [invoice_de]"
proof -
  have a: "region invoice_ca = asc ''Canada''" "submission_timestamp invoice_ca = 259200"
    by (simp_all add: invoice_ca_eq)
  have b: "region invoice_de = asc ''Germany''" "submission_timestamp invoice_de = 0"
    by (simp_all add: invoice_de_eq)
  show ?thesis
    by (simp add: search_cross_regional_duplicates_def detector_de_def quick_ca_de a b
        init_detector_def default_patterns_def asc_def)
qed

lemma to_usd_ca: "to_usd detector_de invoice_ca = 740"
  by (simp add: to_usd_def invoice_ca_eq detector_de_def init_detector_def default_rates_def
      rate_of_def asc_def)

lemma not_suspicious_ca_de:
  "\<not> suspicious (analyze_currency_relationship detector_de invoice_ca invoice_de)"
  by (simp add: analyze_currency_relationship_def currency_variance_def Let_def to_usd_ca
      to_usd_us_de patterns_detector_de default_patterns_def)

lemma hours_ca_de: "hours_diff invoice_ca invoice_de = 72"
  by (simp add: hours_diff_def invoice_ca_eq invoice_de_eq)

lemma window_detector_de: "time_window_hours (patterns detector_de) = 72"
  by (simp add: patterns_detector_de default_patterns_def)

lemma confidence_ca:
  "calculate_fraud_confidence
     (analyze_content_similarity table_runtime detector_de invoice_ca [invoice_de])
   = Inr (489 / 500)"
  by (simp add: analyze_content_similarity_def confidence_single overall_ca_de
      not_suspicious_ca_de hours_ca_de patterns_detector_de default_patterns_def)

theorem fraud_confidence_aggregate_witness:
  "similarity_threshold (patterns detector_de) = 85 / 100
   \<and> calculate_fraud_confidence
        (analyze_content_similarity plain_runtime detector_de (invoice_us 7200) [invoice_de])
       = Inr (99 / 100)
   \<and> calculate_fraud_confidence
        (analyze_content_similarity table_runtime detector_de invoice_ca [invoice_de])
       = Inr (489 / 500)"
proof -
  have thr: "similarity_threshold (patterns detector_de) = 85 / 100"
    by (simp add: patterns_detector_de default_patterns_def)
  have a: "calculate_fraud_confidence
        (analyze_content_similarity plain_runtime detector_de (invoice_us 7200) [invoice_de])
       = Inr (99 / 100)"
    using fraud_confidence_aggregate [OF thr, of plain_runtime "invoice_us 7200" "[invoice_de]" "[]"]
    by (simp add: overall_us_de suspicious_us_de hours_us_de aggregate_spec_def
        patterns_detector_de default_patterns_def)
  have b: "calculate_fraud_confidence
        (analyze_content_similarity table_runtime detector_de invoice_ca [invoice_de])
       = Inr (489 / 500)"
    using fraud_confidence_aggregate [OF thr, of table_runtime invoice_ca "[invoice_de]" "[]"]
    by (simp add: overall_ca_de not_suspicious_ca_de hours_ca_de aggregate_spec_def
        patterns_detector_de default_patterns_def)
  show ?thesis using thr a b by simp
qed

text \<open>
  Claim C2 as stated fails at the boundary of the time window. The Canadian invoice is
  submitted exactly 72 hours after the German one, which the candidate search retains; it
  matches with overall similarity 0.978 and no currency flag. The code returns 0.978: the
  timing analysis tests \<open>hours_diff < 72\<close>, so there is no boost. With 0.05 for a time gap
  within the window, of at most 72 hours, the aggregate is 0.99.
\<close>

theorem time_boost_boundary_counterexample:
  "search_cross_regional_duplicates table_runtime detector_de invoice_ca = [invoice_de]
   \<and> hours_diff invoice_ca invoice_de = real_of_int (time_window_hours (patterns detector_de))
   \<and> calculate_fraud_confidence
        (analyze_content_similarity table_runtime detector_de invoice_ca [invoice_de])
       = Inr (489 / 500)
   \<and> aggregate_spec
        [(overall_similarity
            (compare_invoices_detailed table_runtime detector_de invoice_ca invoice_de),
          suspicious (analyze_currency_relationship detector_de invoice_ca invoice_de),
          hours_diff invoice_ca invoice_de
            \<le> real_of_int (time_window_hours (patterns detector_de)))]
       = 99 / 100"
  by (simp add: search_ca hours_ca_de window_detector_de confidence_ca overall_ca_de
      not_suspicious_ca_de aggregate_spec_def)

subsection \<open>A run of three submissions\<close>

text \<open>
  The German invoice is submitted to the empty detector and stored; the British invoice,
  which shares only the delivery address with it, is submitted an hour later and stored;
  the American invoice, with the text of the German one, is submitted after two hours.
\<close>

lemma fields_uk:
  "normalized_content (fingerprint invoice_uk) = asc ''delivery: y''"
  "po_reference (fingerprint invoice_uk) = []"
  "delivery_address (fingerprint invoice_uk) = asc ''y''"
  "line_items (fingerprint invoice_uk) = []"
  "vendor_name (fingerprint invoice_uk) = []"
  by (simp_all add: invoice_uk_eq fp_address)

lemma basics:
  "region invoice_de = asc ''Germany''" "region invoice_uk = asc ''UK''"
  "region (invoice_us now) = asc ''USA''"
  "submission_timestamp invoice_de = 0" "submission_timestamp invoice_uk = 3600"
  "submission_timestamp (invoice_us now) = now"
  "invoice_id invoice_de = asc ''DE-1''" "invoice_id invoice_uk = asc ''UK-1''"
  by (simp_all add: invoice_de_eq invoice_uk_eq invoice_us_eq)

lemma lower_plain_y: "py_lower (unicode plain_runtime) (asc ''y'') = asc ''y''"
  by (simp add: py_lower_def asc_def ascii_lower_def)

lemma quick_uk_de: "quick_similarity_check plain_runtime invoice_uk invoice_de"
  by (simp add: quick_similarity_check_def Let_def fields_uk fields_de lower_plain_y)
     (simp add: asc_def)

lemma quick_us_uk: "quick_similarity_check plain_runtime (invoice_us now) invoice_uk"
  by (simp add: quick_similarity_check_def Let_def fields_uk fields_us lower_plain_y)
     (simp add: asc_def)

lemma patterns_detectors:
  "patterns init_detector = default_patterns" "patterns detector_de_uk = default_patterns"
  by (simp_all add: detector_de_uk_def init_detector_def)

lemma overall_uk_de:
  "overall_similarity (compare_invoices_detailed plain_runtime detector_de invoice_uk invoice_de)
     = 1 / 4"
  by (simp add: compare_invoices_detailed_def Let_def compare_line_items_def fields_uk fields_de
      ratio_plain patterns_detector_de default_patterns_def asc_def)

lemma overall_us_uk:
  "overall_similarity (compare_invoices_detailed plain_runtime detector_de_uk (invoice_us now)
     invoice_uk) = 1 / 4"
  by (simp add: compare_invoices_detailed_def Let_def compare_line_items_def fields_uk fields_us
      ratio_plain patterns_detectors default_patterns_def asc_def)

lemma overall_us_de':
  "overall_similarity (compare_invoices_detailed plain_runtime detector_de_uk (invoice_us now)
     invoice_de) = 13 / 10"
  by (simp add: compare_invoices_detailed_def Let_def compare_line_items_def fields_us fields_de
      ratio_plain patterns_detectors default_patterns_def asc_def)

lemma search_init: "search_cross_regional_duplicates rt init_detector cur = []"
  by (simp add: search_cross_regional_duplicates_def init_detector_def)

lemma search_uk:
  "search_cross_regional_duplicates plain_runtime detector_de invoice_uk = [invoice_de]"
  by (simp add: search_cross_regional_duplicates_def detector_de_def basics quick_uk_de
      init_detector_def default_patterns_def asc_def)

lemma search_us:
  "search_cross_regional_duplicates plain_runtime detector_de_uk (invoice_us 7200)
     = [invoice_de, invoice_uk]"
  by (simp add: search_cross_regional_duplicates_def detector_de_uk_def basics quick_us_de
      quick_us_uk init_detector_def default_patterns_def asc_def)


lemma analyze_uk:
  "analyze_content_similarity plain_runtime detector_de invoice_uk [invoice_de] = empty_evidence"
  by (simp add: analyze_content_similarity_def analyze_step_def Let_def overall_uk_de
      patterns_detector_de default_patterns_def)

lemma analyze_us:
  "analyze_content_similarity plain_runtime detector_de_uk (invoice_us now)
     [invoice_de, invoice_uk]
   = analyze_step plain_runtime detector_de_uk (invoice_us now) invoice_de empty_evidence"
  by (simp add: analyze_content_similarity_def analyze_step_skip overall_us_uk
      patterns_detectors default_patterns_def)

lemma to_usd_de_uk:
  "to_usd detector_de_uk (invoice_us now) = 55000" "to_usd detector_de_uk invoice_de = 59000"
  "to_usd detector_de_uk invoice_uk = 1280"
  by (simp_all add: to_usd_def invoice_us_eq invoice_de_eq invoice_uk_eq detector_de_uk_def
      init_detector_def default_rates_def rate_of_def asc_def)

lemma suspicious_us_de':
  "suspicious (analyze_currency_relationship detector_de_uk (invoice_us now) invoice_de)"
  by (simp add: analyze_currency_relationship_def currency_variance_def Let_def to_usd_de_uk
      patterns_detectors default_patterns_def)

lemma confidence_us:
  "calculate_fraud_confidence
     (analyze_content_similarity plain_runtime detector_de_uk (invoice_us 7200)
        [invoice_de, invoice_uk]) = Inr (99 / 100)"
  by (simp add: analyze_us confidence_single overall_us_de' suspicious_us_de' hours_us_de
      patterns_detectors default_patterns_def)

lemma round_60280: "py_round2 60280 = 60280"
  by (simp add: py_round2_def round_half_even_def)

lemma loss_us:
  "calculate_potential_loss detector_de_uk (invoice_us 7200) [invoice_de, invoice_uk] = 60280"
  by (simp add: calculate_potential_loss_def to_usd_de_uk round_60280)

lemma add_examples:
  "add_to_regional_database init_detector invoice_de = detector_de"
  "add_to_regional_database detector_de invoice_uk = detector_de_uk"
  by (simp_all add: add_to_regional_database_def detector_de_def detector_de_uk_def
      init_detector_def)

lemma confidence_empty: "calculate_fraud_confidence empty_evidence = Inr 0"
  by (simp add: calculate_fraud_confidence_def empty_evidence_def)

lemma detect_de:
  "detect_multi_regional_fraud plain_runtime init_detector data_de 0 now' = Inr (None, detector_de)"
  by (simp add: detect_multi_regional_fraud_def Let_def invoice_de_def [symmetric] search_init
      analyze_content_similarity_def confidence_empty add_examples)

lemma detect_uk:
  "detect_multi_regional_fraud plain_runtime detector_de data_uk 3600 now'
     = Inr (None, detector_de_uk)"
  by (simp add: detect_multi_regional_fraud_def Let_def invoice_uk_def [symmetric] search_uk
      analyze_uk confidence_empty add_examples)

lemma detect_us:
  "detect_multi_regional_fraud plain_runtime detector_de_uk data_us 7200 7201
     = Inr (Some (generate_fraud_alert plain_runtime 7201 (invoice_us 7200)
                    [invoice_de, invoice_uk]
                    (analyze_content_similarity plain_runtime detector_de_uk (invoice_us 7200)
                       [invoice_de, invoice_uk])
                    (99 / 100) 60280),
            detector_de_uk)"
  by (simp add: detect_multi_regional_fraud_def Let_def invoice_us_def [symmetric] search_us
      confidence_us loss_us)

subsection \<open>Alert decision\<close>

lemma confidence_total:
  "\<exists>c. calculate_fraud_confidence (analyze_content_similarity rt d cur dups) = Inr c"
proof -
  let ?P = "\<lambda>x. overall_similarity (compare_invoices_detailed rt d cur x)
                  > similarity_threshold (patterns d)"
  let ?ev = "analyze_content_similarity rt d cur dups"
  have m: "matches ?ev = filter ?P dups"
    by (simp add: analyze_content_similarity_def fold_analyze_matches empty_evidence_def)
  show ?thesis
  proof (cases "filter ?P dups = []")
    case True
    then show ?thesis using m by (simp add: calculate_fraud_confidence_def)
  next
    case False
    have "similarity_scores ?ev \<noteq> []"
      unfolding analyze_content_similarity_def
      by (rule fold_analyze_scores_nonempty' [OF False])
    then obtain p ps where "similarity_scores ?ev = p # ps"
      by (cases "similarity_scores ?ev") auto
    then show ?thesis by (simp add: calculate_fraud_confidence_def Let_def)
  qed
qed

text \<open>
  Claim C1, as the code has it. For every submitted invoice, every detector and every
  clock, the pipeline computes a confidence (the aggregation never raises on the evidence
  of the content analysis) and returns an alert, carrying that confidence, exactly when
  the confidence exceeds 0.75; the detector is then unchanged. Otherwise it returns no
  alert and the detector has the submitted invoice appended to its database. The appended
  record has the processing status \<open>pending\<close> that it was created with: the source has no
  status Stored and never updates the field.
\<close>

theorem detection_decision:
  "case calculate_fraud_confidence
          (analyze_content_similarity rt d (create_regional_invoice rt data now)
             (search_cross_regional_duplicates rt d (create_regional_invoice rt data now))) of
     Inl e \<Rightarrow> False
   | Inr confidence \<Rightarrow>
       if confidence > 75 / 100
       then \<exists>alert. detect_multi_regional_fraud rt d data now now' = Inr (Some alert, d)
              \<and> confidence_score alert = confidence
       else detect_multi_regional_fraud rt d data now now'
              = Inr (None, d\<lparr>cross_regional_database :=
                              cross_regional_database d @ [create_regional_invoice rt data now]\<rparr>)
                \<and> processing_status (create_regional_invoice rt data now) = asc ''pending''"
proof -
  obtain c where c: "calculate_fraud_confidence
       (analyze_content_similarity rt d (create_regional_invoice rt data now)
          (search_cross_regional_duplicates rt d (create_regional_invoice rt data now)))
       = Inr c"
    using confidence_total by blast
  have p: "processing_status (create_regional_invoice rt data now) = asc ''pending''"
    by (simp add: create_regional_invoice_def Let_def)
  show ?thesis
    by (simp add: c p detect_multi_regional_fraud_def Let_def generate_fraud_alert_def
        add_to_regional_database_def)
qed

theorem detection_decision_witness:
  "(\<exists>alert. detect_multi_regional_fraud plain_runtime detector_de_uk data_us 7200 7201
              = Inr (Some alert, detector_de_uk)
            \<and> confidence_score alert = 99 / 100)
   \<and> detect_multi_regional_fraud plain_runtime init_detector data_de 0 1
       = Inr (None, init_detector\<lparr>cross_regional_database := [invoice_de]\<rparr>)
   \<and> processing_status invoice_de = asc ''pending''"
proof -
  have a: "create_regional_invoice plain_runtime data_us 7200 = invoice_us 7200"
    "create_regional_invoice plain_runtime data_de 0 = invoice_de"
    by (simp_all add: invoice_us_def invoice_de_def)
  have e: "calculate_fraud_confidence
             (analyze_content_similarity plain_runtime init_detector invoice_de []) = Inr 0"
    by (simp add: analyze_content_similarity_def confidence_empty)
  have db: "cross_regional_database init_detector = []"
    by (simp add: init_detector_def)
  show ?thesis
    using detection_decision [of plain_runtime detector_de_uk data_us 7200 7201]
      detection_decision [of plain_runtime init_detector data_de 0 1]
    by (simp add: a search_us search_init confidence_us e db)
qed

text \<open>
  Claim C1 as stated fails: the German invoice raises no alert and is appended to the
  database, and the appended record has the status \<open>pending\<close>, not Stored.
\<close>

theorem stored_status_counterexample:
  "detect_multi_regional_fraud plain_runtime init_detector data_de 0 1
     = Inr (None, detector_de)
   \<and> cross_regional_database detector_de = [invoice_de]
   \<and> processing_status invoice_de = asc ''pending''
   \<and> processing_status invoice_de \<noteq> asc ''Stored''"
  by (simp add: detect_de detector_de_def invoice_de_eq asc_def)

subsection \<open>Alert contents\<close>

lemma fold_loss:
  "fold (\<lambda>duplicate acc. acc + to_usd d duplicate) dups (a :: real)
     = a + sum_list (map (to_usd d) dups)"
  by (induction dups arbitrary: a) simp_all

text \<open>
  Claim C6, as the code has it. The invoices of a produced alert are the submitted invoice
  followed by all candidates of the search (the stored invoices of another region, within
  the time window, that pass the pre-filter), whether or not their overall similarity
  exceeded the pairwise threshold, and the potential loss is the sum of the amounts of
  those candidates in USD, rounded to two decimals, without the amount of the submitted
  invoice.
\<close>

theorem alert_candidates_and_loss:
  assumes "detect_multi_regional_fraud rt d data now now' = Inr (Some alert, d')"
  shows "duplicate_invoices alert =
           create_regional_invoice rt data now
           # search_cross_regional_duplicates rt d (create_regional_invoice rt data now)
     \<and> potential_loss alert =
           py_round2 (sum_list (map (to_usd d)
             (search_cross_regional_duplicates rt d (create_regional_invoice rt data now))))"
  using assms
  by (auto simp: detect_multi_regional_fraud_def Let_def generate_fraud_alert_def
      calculate_potential_loss_def fold_loss split: sum.splits if_splits)

lemma alert_us_detected:
  "detect_multi_regional_fraud plain_runtime detector_de_uk data_us 7200 7201
     = Inr (Some alert_us, detector_de_uk)"
  by (simp add: detect_us alert_us_def)

theorem alert_candidates_and_loss_witness:
  "detect_multi_regional_fraud plain_runtime detector_de_uk data_us 7200 7201
     = Inr (Some alert_us, detector_de_uk)
   \<and> duplicate_invoices alert_us = [invoice_us 7200, invoice_de, invoice_uk]
   \<and> potential_loss alert_us = 60280"
  using alert_candidates_and_loss [OF alert_us_detected] alert_us_detected
  by (simp add: invoice_us_def [symmetric] search_us to_usd_de_uk round_60280)

text \<open>
  Claim C6 as stated fails: the alert for the American invoice lists the British invoice,
  whose overall similarity 0.25 is below the threshold and which is not among the matches
  of the evidence, and its potential loss 60280 includes the 1280 USD of that invoice, where
  the only match amounts to 59000 USD.
\<close>

theorem alert_matched_only_counterexample:
  "detect_multi_regional_fraud plain_runtime detector_de_uk data_us 7200 7201
     = Inr (Some alert_us, detector_de_uk)
   \<and> invoice_uk \<in> set (duplicate_invoices alert_us)
   \<and> \<not> overall_similarity
          (compare_invoices_detailed plain_runtime detector_de_uk (invoice_us 7200) invoice_uk)
        > similarity_threshold (patterns detector_de_uk)
   \<and> matches (evidence_details alert_us) = [invoice_de]
   \<and> to_usd detector_de_uk invoice_de = 59000
   \<and> potential_loss alert_us \<noteq> 59000"
  by (simp add: alert_us_detected alert_us_def generate_fraud_alert_def overall_us_uk
      patterns_detectors default_patterns_def analyze_us analyze_step_def Let_def
      overall_us_de' empty_evidence_def to_usd_de_uk)

subsection \<open>The two registries\<close>

lemma master_fp_sample:
  "create_content_fingerprint plain_unicode sample_text = asc ''po: aAMOUNT item: x delivery: y''"
  by (simp add: sample_text_def create_content_fingerprint_def date_pattern_def
      amount_pattern_def whitespace_pattern_def Let_def rx_defs)

lemma master_fp_address:
  "create_content_fingerprint plain_unicode address_text = asc ''delivery: y''"
  by (simp add: address_text_def create_content_fingerprint_def date_pattern_def
      amount_pattern_def whitespace_pattern_def Let_def rx_defs)

lemma master_appends:
  "master_database (snd (multi_regional_fraud_analysis rt m data usd_amount current_time)) =
     master_database m
     @ [\<lparr>entry_invoice_id = get_or (data_invoice_id data) [],
         entry_region = get_or (data_region data) (asc ''Unknown''),
         entry_content_fingerprint =
           create_content_fingerprint (unicode rt) (get_or (data_invoice_text data) []),
         entry_usd_amount = usd_amount, entry_timestamp = current_time\<rparr>]"
  by (simp add: multi_regional_fraud_analysis_def Let_def split: list.splits)

lemma detector_alert_unchanged:
  "detect_multi_regional_fraud rt d data now now' = Inr (Some alert, d') \<Longrightarrow> d' = d"
  by (auto simp: detect_multi_regional_fraud_def Let_def split: sum.splits if_splits)

lemma detector_stored:
  "detect_multi_regional_fraud rt d data now now' = Inr (None, d') \<Longrightarrow>
     cross_regional_database d'
       = cross_regional_database d @ [create_regional_invoice rt data now]"
  by (auto simp: detect_multi_regional_fraud_def Let_def add_to_regional_database_def
      split: sum.splits if_splits)

text \<open>
  Claim C10. The fraud analysis of the master system appends the processed invoice to its
  database on every call, whether or not it detects fraud. The standalone detector leaves
  its database unchanged when it returns an alert, and appends the invoice only when it
  returns none. So the two do not leave the same registry behind: in the witness the same
  three submissions leave three entries in the master system, which flags the third, and
  two invoices in the detector, which flags the third and does not record it.
\<close>

theorem registry_policies_disagree:
  "master_database (snd (multi_regional_fraud_analysis rt m data usd_amount current_time)) =
     master_database m
     @ [\<lparr>entry_invoice_id = get_or (data_invoice_id data) [],
         entry_region = get_or (data_region data) (asc ''Unknown''),
         entry_content_fingerprint =
           create_content_fingerprint (unicode rt) (get_or (data_invoice_text data) []),
         entry_usd_amount = usd_amount, entry_timestamp = current_time\<rparr>]
   \<and> (detect_multi_regional_fraud rt d data now now' = Inr (Some alert, d')
        \<longrightarrow> cross_regional_database d' = cross_regional_database d)
   \<and> (detect_multi_regional_fraud rt d data now now' = Inr (None, d')
        \<longrightarrow> cross_regional_database d'
              = cross_regional_database d @ [create_regional_invoice rt data now])"
  using detector_alert_unchanged [of rt d data now now' alert d']
    detector_stored [of rt d data now now' d']
  by (auto simp: master_appends)

lemma master_de_db:
  "master_database master_de =
     [\<lparr>entry_invoice_id = asc ''DE-1'', entry_region = asc ''Germany'',
       entry_content_fingerprint = asc ''po: aAMOUNT item: x delivery: y'',
       entry_usd_amount = 59000, entry_timestamp = 0\<rparr>]"
  by (simp add: master_de_def master_appends init_master_def data_de_def get_or_def
      master_fp_sample plain_runtime_def)


lemma master_snd:
  "snd (multi_regional_fraud_analysis rt m data usd_amount current_time) =
     m\<lparr>master_database :=
         master_database (snd (multi_regional_fraud_analysis rt m data usd_amount current_time))\<rparr>"
  by (simp add: multi_regional_fraud_analysis_def Let_def split: list.splits)

lemma master_de_uk_db:
  "master_database master_de_uk =
     [\<lparr>entry_invoice_id = asc ''DE-1'', entry_region = asc ''Germany'',
       entry_content_fingerprint = asc ''po: aAMOUNT item: x delivery: y'',
       entry_usd_amount = 59000, entry_timestamp = 0\<rparr>,
      \<lparr>entry_invoice_id = asc ''UK-1'', entry_region = asc ''UK'',
       entry_content_fingerprint = asc ''delivery: y'',
       entry_usd_amount = 1280, entry_timestamp = 3600000000\<rparr>]"
  by (simp add: master_de_uk_def master_appends master_de_db data_uk_def get_or_def
      master_fp_address plain_runtime_def)

lemma master_thresholds:
  "master_similarity_threshold master_de_uk = 85 / 100"
  "master_time_window_hours master_de_uk = 72"
proof -
  have a: "master_similarity_threshold (snd (multi_regional_fraud_analysis rt m data usd t))
             = master_similarity_threshold m"
    "master_time_window_hours (snd (multi_regional_fraud_analysis rt m data usd t))
             = master_time_window_hours m" for rt m data usd t
    by (subst master_snd, simp)+
  show "master_similarity_threshold master_de_uk = 85 / 100"
    "master_time_window_hours master_de_uk = 72"
    by (simp_all add: master_de_uk_def master_de_def a init_master_def)
qed

lemma master_us_detected:
  "fraud_detected
     (fst (multi_regional_fraud_analysis plain_runtime master_de_uk data_us 55000 7200000000))"
  by (simp add: multi_regional_fraud_analysis_def Let_def master_de_uk_db master_thresholds
      data_us_def get_or_def master_fp_sample ratio_plain asc_def
      plain_runtime_def [THEN arg_cong [of _ _ unicode], simplified])

lemma detector_de_uk_db: "cross_regional_database detector_de_uk = [invoice_de, invoice_uk]"
  by (simp add: detector_de_uk_def)

theorem registry_policies_disagree_witness:
  "detect_multi_regional_fraud plain_runtime detector_de_uk data_us 7200 7201
     = Inr (Some alert_us, detector_de_uk)
   \<and> length (cross_regional_database detector_de_uk) = 2
   \<and> length (master_database master_de_uk) = 2
   \<and> fraud_detected
        (fst (multi_regional_fraud_analysis plain_runtime master_de_uk data_us 55000 7200000000))
   \<and> length (master_database
        (snd (multi_regional_fraud_analysis plain_runtime master_de_uk data_us 55000 7200000000)))
       = 3"
  using registry_policies_disagree [of plain_runtime master_de_uk data_us 55000 7200000000
      detector_de_uk 7200 7201 alert_us detector_de_uk]
    alert_us_detected master_us_detected
  by (simp add: master_de_uk_db detector_de_uk_db)

subsection \<open>Content normalizer\<close>


































subsection \<open>Fingerprint extraction\<close>

lemma py_list_set_elements:
  "\<forall>xs. set (set_order rt xs) = set xs \<Longrightarrow> set (py_list_set rt xs) = set xs"
  by (simp add: py_list_set_def)

lemma keywords_other_order:
  assumes "\<forall>xs. set (set_order rt xs) = set xs" and "\<forall>xs. set (ord xs) = set xs"
  shows "set (extract_keywords (rt\<lparr>set_order := ord\<rparr>) txt) = set (extract_keywords rt txt)"
  using assms by (simp add: extract_keywords_def Let_def py_list_set_def)

text \<open>
  Claim C9, as the code has it. Within one interpreter process the fingerprint of a
  submitted invoice is a function of its raw text alone: two submissions with the same
  text have the same fingerprint, whatever their other fields and the clock. Between two
  processes that differ in the iteration order of sets, every field of the fingerprint of
  a text is the same except the list of keywords, which \<^verbatim>\<open>list(set(keywords))\<close> gives in
  that order; the two lists have the same elements.
\<close>

theorem fingerprint_deterministic:
  "(data_invoice_text data1 = data_invoice_text data2 \<longrightarrow>
      fingerprint (create_regional_invoice rt data1 now1)
        = fingerprint (create_regional_invoice rt data2 now2))
   \<and> generate_content_fingerprint (rt\<lparr>set_order := ord\<rparr>) txt =
       (generate_content_fingerprint rt txt)
         \<lparr>extracted_keywords := extract_keywords (rt\<lparr>set_order := ord\<rparr>) txt\<rparr>
   \<and> ((\<forall>xs. set (set_order rt xs) = set xs) \<and> (\<forall>xs. set (ord xs) = set xs) \<longrightarrow>
        set (extracted_keywords (generate_content_fingerprint (rt\<lparr>set_order := ord\<rparr>) txt))
          = set (extracted_keywords (generate_content_fingerprint rt txt)))"
proof -
  have a: "data_invoice_text data1 = data_invoice_text data2 \<longrightarrow>
      fingerprint (create_regional_invoice rt data1 now1)
        = fingerprint (create_regional_invoice rt data2 now2)"
    by (simp add: create_regional_invoice_def Let_def)
  have b: "generate_content_fingerprint (rt\<lparr>set_order := ord\<rparr>) txt =
       (generate_content_fingerprint rt txt)
         \<lparr>extracted_keywords := extract_keywords (rt\<lparr>set_order := ord\<rparr>) txt\<rparr>"
    by (simp add: generate_content_fingerprint_def Let_def)
  have c: "extracted_keywords (generate_content_fingerprint r txt) = extract_keywords r txt" for r
    by (simp add: generate_content_fingerprint_def Let_def)
  show ?thesis
    using a b by (simp add: c keywords_other_order)
qed

lemma keywords_plain:
  "extract_keywords plain_runtime keyword_text = [asc ''software'', asc ''microsoft'']"
  by (simp add: keyword_text_def extract_keywords_def py_list_set_def Let_def rx_defs)

lemma keywords_reversed:
  "extract_keywords reversed_runtime keyword_text = [asc ''microsoft'', asc ''software'']"
  by (simp add: keyword_text_def extract_keywords_def py_list_set_def Let_def
      reversed_runtime_def rx_defs)

theorem fingerprint_deterministic_witness:
  "data_invoice_text data_de = data_invoice_text data_us
   \<and> fingerprint (create_regional_invoice plain_runtime data_de 0)
       = fingerprint (create_regional_invoice plain_runtime data_us 7200)
   \<and> (\<forall>xs. set (set_order plain_runtime xs) = set xs) \<and> (\<forall>xs :: str list. set (rev xs) = set xs)
   \<and> set (extracted_keywords
            (generate_content_fingerprint (plain_runtime\<lparr>set_order := rev\<rparr>) keyword_text))
       = set (extracted_keywords (generate_content_fingerprint plain_runtime keyword_text))"
proof -
  have t: "data_invoice_text data_de = data_invoice_text data_us"
    by (simp add: data_de_def data_us_def)
  have p: "\<forall>xs. set (set_order plain_runtime xs) = set xs"
    by (simp add: plain_runtime_def)
  note th = fingerprint_deterministic [of data_de data_us plain_runtime 0 7200 rev keyword_text]
  have a: "fingerprint (create_regional_invoice plain_runtime data_de 0)
             = fingerprint (create_regional_invoice plain_runtime data_us 7200)"
    using th t by blast
  have r: "\<forall>xs :: str list. set (rev xs) = set xs"
    by simp
  have b: "set (extracted_keywords
            (generate_content_fingerprint (plain_runtime\<lparr>set_order := rev\<rparr>) keyword_text))
       = set (extracted_keywords (generate_content_fingerprint plain_runtime keyword_text))"
    using th p r by blast
  show ?thesis
    using t a p r b by blast
qed

text \<open>
  Claim C9 as stated fails: for a text with two keywords, two processes whose sets of
  strings iterate in different orders give two different lists of keywords, and so two
  different fingerprints.
\<close>

theorem fingerprint_order_counterexample:
  "extracted_keywords (generate_content_fingerprint plain_runtime keyword_text)
     = [asc ''software'', asc ''microsoft'']
   \<and> extracted_keywords (generate_content_fingerprint reversed_runtime keyword_text)
     = [asc ''microsoft'', asc ''software'']
   \<and> generate_content_fingerprint reversed_runtime keyword_text
       \<noteq> generate_content_fingerprint plain_runtime keyword_text"
proof -
  have c: "extracted_keywords (generate_content_fingerprint r t) = extract_keywords r t"
    for r t
    by (simp add: generate_content_fingerprint_def Let_def)
  have d: "extracted_keywords (generate_content_fingerprint reversed_runtime keyword_text)
           \<noteq> extracted_keywords (generate_content_fingerprint plain_runtime keyword_text)"
    by (simp add: c keywords_plain keywords_reversed asc_def)
  then have "generate_content_fingerprint reversed_runtime keyword_text
       \<noteq> generate_content_fingerprint plain_runtime keyword_text"
    by metis
  then show ?thesis by (simp add: c keywords_plain keywords_reversed)
qed

end
